theory Spec2Isabelle
  imports Complex_Main
begin

section \<open>Steering controllers of Chrono::Vehicle (ChSteeringController.cpp)\<close>

text \<open>
  The C++ type \<^verbatim>\<open>double\<close> is read as \<^typ>\<open>real\<close>: the functions below are the
  member functions in exact arithmetic, in calls where every double is a number.  Two
  things that exact arithmetic hides are modelled apart, in the subsection on doubles
  that are not numbers: a double may be NaN (\<^verbatim>\<open>std::asin\<close> of an argument outside
  \<open>[-1, 1]\<close>), which both comparisons of a clamp let through, and the library's
  normalization and length are rounded, so that a normalized vector need not have
  length 1.  Every member function that mutates the controller takes the controller
  state and returns the new one.
\<close>

subsection \<open>Vectors, frames and the world frame\<close>

text \<open>
  The headers of the Chrono core (chrono/core/ChVector.h, ChMathematics.h, ChFrame.h,
  ChMatrix33.h) and chrono_vehicle/ChWorldFrame.h are not among the sources at hand.
  What the controllers use of them is modelled here, each definition from its name, its
  use in ChSteeringController.cpp and the words of the specification.
\<close>

text \<open>Modelled from the spec: \<^verbatim>\<open>ChVector<>\<close>, a point or vector of three doubles.\<close>
datatype ChVector = Vec (vx: real) (vy: real) (vz: real)

text \<open>Modelled from the spec: \<^verbatim>\<open>a + b\<close> on \<^verbatim>\<open>ChVector<>\<close>, the sum by components.\<close>
definition Vadd :: "ChVector \<Rightarrow> ChVector \<Rightarrow> ChVector" where
  "Vadd a b = Vec (vx a + vx b) (vy a + vy b) (vz a + vz b)"

text \<open>Modelled from the spec: \<^verbatim>\<open>a - b\<close> on \<^verbatim>\<open>ChVector<>\<close>, the difference by components.\<close>
definition Vsub :: "ChVector \<Rightarrow> ChVector \<Rightarrow> ChVector" where
  "Vsub a b = Vec (vx a - vx b) (vy a - vy b) (vz a - vz b)"

text \<open>Modelled from the spec: \<^verbatim>\<open>-b\<close> on \<^verbatim>\<open>ChVector<>\<close>, the opposite vector.\<close>
definition Vneg :: "ChVector \<Rightarrow> ChVector" where
  "Vneg a = Vec (- vx a) (- vy a) (- vz a)"

text \<open>Modelled from the spec: \<^verbatim>\<open>k * a\<close> on \<^verbatim>\<open>ChVector<>\<close>, the scaling by a double.\<close>
definition Vscale :: "real \<Rightarrow> ChVector \<Rightarrow> ChVector" where
  "Vscale k a = Vec (k * vx a) (k * vy a) (k * vz a)"

text \<open>Modelled from the spec: \<^verbatim>\<open>Vdot\<close> (also \<^verbatim>\<open>a.Dot(b)\<close>), the dot product.\<close>
definition Vdot :: "ChVector \<Rightarrow> ChVector \<Rightarrow> real" where
  "Vdot a b = vx a * vx b + vy a * vy b + vz a * vz b"

text \<open>Modelled from the spec: \<^verbatim>\<open>Vcross\<close> (also \<^verbatim>\<open>a % b\<close>), the cross product.\<close>
definition Vcross :: "ChVector \<Rightarrow> ChVector \<Rightarrow> ChVector" where
  "Vcross a b = Vec (vy a * vz b - vz a * vy b)
                    (vz a * vx b - vx a * vz b)
                    (vx a * vy b - vy a * vx b)"

text \<open>Modelled from the spec: \<^verbatim>\<open>ChVector::Length\<close>, the Euclidean length.\<close>
definition Length :: "ChVector \<Rightarrow> real" where
  "Length a = sqrt (vx a * vx a + vy a * vy a + vz a * vz a)"

text \<open>
  Modelled from the spec: \<^verbatim>\<open>std::numeric_limits<double>::min()\<close>, the smallest positive
  normal double, below which \<^verbatim>\<open>ChVector::Normalize\<close> gives up.
\<close>
definition DBL_MIN :: real where
  "DBL_MIN = 1 / 2 ^ 1022"

text \<open>
  Modelled from the spec: \<^verbatim>\<open>ChVector::Normalize\<close>.  The spec only says "normalized"; a
  vector too short to be scaled is replaced by the unit X vector, any other is scaled by
  the inverse of its length.
\<close>
definition Normalize :: "ChVector \<Rightarrow> ChVector" where
  "Normalize v = (if Length v < DBL_MIN then Vec 1 0 0 else Vscale (1 / Length v) v)"

text \<open>
  Modelled from the spec: \<^verbatim>\<open>ChWorldFrame::Forward()\<close>, in the ISO setting of the world
  frame that the comments of the controllers name: X forward, Y to the left, Z up.
\<close>
definition Forward :: ChVector where
  "Forward = Vec 1 0 0"

text \<open>Modelled from the spec: \<^verbatim>\<open>ChWorldFrame::Vertical()\<close>, the world vertical axis (ISO).\<close>
definition Vertical :: ChVector where
  "Vertical = Vec 0 0 1"

text \<open>
  Modelled from the spec: \<^verbatim>\<open>ChWorldFrame::Project\<close>, the projection onto the ground plane:
  the vertical component is dropped.
\<close>
definition Project :: "ChVector \<Rightarrow> ChVector" where
  "Project v = Vec (vx v) (vy v) 0"

text \<open>Modelled from the spec: \<^verbatim>\<open>ChWorldFrame::Height\<close>, the vertical component.\<close>
definition Height :: "ChVector \<Rightarrow> real" where
  "Height v = vz v"

text \<open>Modelled from the spec: \<^verbatim>\<open>ChSignum\<close>, the sign of a number: -1, 0 or 1.\<close>
definition ChSignum :: "real \<Rightarrow> real" where
  "ChSignum x = (if 0 < x then 1 else if x < 0 then -1 else 0)"

text \<open>
  Modelled from the spec: \<^verbatim>\<open>ChClamp\<close>, the saturating clamp of a value between a lower
  and an upper limit; the lower limit is tested first.
\<close>
definition ChClamp :: "real \<Rightarrow> real \<Rightarrow> real \<Rightarrow> real" where
  "ChClamp v limitMin limitMax =
     (if v < limitMin then limitMin else if v > limitMax then limitMax else v)"

text \<open>
  Modelled from the spec: \<^verbatim>\<open>ChSineStep\<close>, the smooth step from \<open>(x1, y1)\<close> to \<open>(x2, y2)\<close>:
  \<open>y1\<close> up to \<open>x1\<close>, \<open>y2\<close> from \<open>x2\<close> on, and in between the ramp smoothed by one
  period of a sine ("zero effect inside the dead zone, full effect beyond twice the dead
  zone, smoothstep transition in between").
\<close>
definition ChSineStep :: "real \<Rightarrow> real \<Rightarrow> real \<Rightarrow> real \<Rightarrow> real \<Rightarrow> real" where
  "ChSineStep x x1 y1 x2 y2 =
     (if x \<le> x1 then y1
      else if x \<ge> x2 then y2
      else let dx = x2 - x1; dy = y2 - y1
           in y1 + dy * (x - x1) / dx - (dy / (2 * pi)) * sin (2 * pi * (x - x1) / dx))"

text \<open>Modelled from the spec: the constant \<^verbatim>\<open>CH_C_DEG_TO_RAD\<close>, radians per degree.\<close>
definition CH_C_DEG_TO_RAD :: real where
  "CH_C_DEG_TO_RAD = pi / 180"

text \<open>
  Modelled from the spec: the rotation of a \<^verbatim>\<open>ChFrame\<close>, kept as the three axes of the
  rotated frame (the columns of its matrix), which is all the controllers read of it
  (\<^verbatim>\<open>GetXaxis\<close>, \<^verbatim>\<open>GetYaxis\<close>, \<^verbatim>\<open>GetZaxis\<close>).
\<close>
record ChRot =
  GetXaxis :: ChVector
  GetYaxis :: ChVector
  GetZaxis :: ChVector

text \<open>Modelled from the spec: \<^verbatim>\<open>ChFrame<>\<close>, a position and a rotation.\<close>
record ChFrame =
  frame_GetPos :: ChVector
  GetRot :: ChRot

text \<open>
  Modelled from the spec: \<^verbatim>\<open>ChFrame::TransformPointLocalToParent\<close>, the position of the
  frame plus the local point rotated into the parent frame.
\<close>
definition TransformPointLocalToParent :: "ChFrame \<Rightarrow> ChVector \<Rightarrow> ChVector" where
  "TransformPointLocalToParent f p =
     Vadd (frame_GetPos f)
          (Vadd (Vscale (vx p) (GetXaxis (GetRot f)))
                (Vadd (Vscale (vy p) (GetYaxis (GetRot f)))
                      (Vscale (vz p) (GetZaxis (GetRot f)))))"

text \<open>
  Modelled from the spec: \<^verbatim>\<open>ChVehicle\<close>, as far as a controller reads it in one call:
  the chassis reference frame, the vehicle position, the vehicle speed, the velocity of
  the origin of the chassis frame and the simulation time.
\<close>
record ChVehicle =
  GetFrame_REF_to_abs :: ChFrame      \<comment> \<open>\<^verbatim>\<open>GetChassisBody()->GetFrame_REF_to_abs()\<close>\<close>
  GetPos :: ChVector
  GetSpeed :: real
  GetPointVelocity :: ChVector        \<comment> \<open>\<^verbatim>\<open>GetPointVelocity(ChVector<>(0, 0, 0))\<close>\<close>
  GetChTime :: real

subsection \<open>The base class ChSteeringController\<close>

type_synonym csv_row = "real \<times> ChVector \<times> ChVector"

record ChSteeringController =
  m_dist :: real
  m_sentinel :: ChVector
  m_target :: ChVector
  m_err :: real
  m_erri :: real
  m_errd :: real
  m_Kp :: real
  m_Ki :: real
  m_Kd :: real
  m_csv :: "csv_row list option"      \<comment> \<open>\<open>None\<close> is \<^verbatim>\<open>nullptr\<close>\<close>
  m_collect :: bool

definition SetGains ::
  "real \<Rightarrow> real \<Rightarrow> real \<Rightarrow> 'z ChSteeringController_scheme \<Rightarrow> 'z ChSteeringController_scheme" where
  "SetGains Kp Ki Kd s = s\<lparr>m_Kp := Kp, m_Ki := Ki, m_Kd := Kd\<rparr>"

text \<open>
  The default constructor.  The storage of the object before construction is the
  argument: a member that a constructor does not assign keeps what the storage held.
\<close>
definition ChSteeringController_ctor ::
  "'z ChSteeringController_scheme \<Rightarrow> 'z ChSteeringController_scheme" where
  "ChSteeringController_ctor mem =
     SetGains 0 0 0
       (mem\<lparr>m_dist := 0, m_sentinel := Vec 0 0 0, m_target := Vec 0 0 0,
            m_err := 0, m_erri := 0, m_errd := 0, m_csv := None, m_collect := False\<rparr>)"

definition Reset ::
  "ChVehicle \<Rightarrow> 'z ChSteeringController_scheme \<Rightarrow> 'z ChSteeringController_scheme" where
  "Reset vehicle s =
     s\<lparr>m_sentinel :=
          TransformPointLocalToParent (GetFrame_REF_to_abs vehicle) (Vscale (m_dist s) Forward),
       m_err := 0, m_erri := 0, m_errd := 0\<rparr>"

text \<open>Appending a row to the CSV writer when data collection is on.\<close>
definition collect_row ::
  "ChVehicle \<Rightarrow> 'z ChSteeringController_scheme \<Rightarrow> 'z ChSteeringController_scheme" where
  "collect_row vehicle s =
     (if m_collect s
      then s\<lparr>m_csv := map_option (\<lambda>rows. rows @ [(GetChTime vehicle, m_target s, m_sentinel s)])
                                 (m_csv s)\<rparr>
      else s)"

text \<open>
  The signed lateral error that all variants compute from sentinel, target and vehicle
  position: the length of the projected sentinel-to-target vector, with the sign of the
  vertical component of the cross product of the projected sentinel and target vectors.
\<close>
definition lateral_error :: "ChVehicle \<Rightarrow> 'z ChSteeringController_scheme \<Rightarrow> real" where
  "lateral_error vehicle s =
     (let err_vec = Project (Vsub (m_target s) (m_sentinel s));
          sentinel_vec = Project (Vsub (m_sentinel s) (GetPos vehicle));
          target_vec = Project (Vsub (m_target s) (GetPos vehicle));
          temp = Vdot (Vcross sentinel_vec target_vec) Vertical
      in ChSignum temp * Length err_vec)"

text \<open>
  \<^verbatim>\<open>ChSteeringController::Advance\<close>.  The virtual \<^verbatim>\<open>CalcTargetLocation\<close> of the derived
  class is the first argument.
\<close>
definition Advance ::
  "('z ChSteeringController_scheme \<Rightarrow> 'z ChSteeringController_scheme) \<Rightarrow> ChVehicle \<Rightarrow> real \<Rightarrow>
   'z ChSteeringController_scheme \<Rightarrow> 'z ChSteeringController_scheme \<times> real" where
  "Advance CalcTargetLocation vehicle step s0 =
     (let s1 = s0\<lparr>m_sentinel :=
                   TransformPointLocalToParent (GetFrame_REF_to_abs vehicle)
                                               (Vscale (m_dist s0) Forward)\<rparr>;
          s2 = CalcTargetLocation s1;
          s3 = collect_row vehicle s2;
          err = lateral_error vehicle s3;
          s4 = s3\<lparr>m_errd := (err - m_err s3) / step\<rparr>;
          s5 = s4\<lparr>m_erri := m_erri s4 + (err + m_err s4) * step / 2\<rparr>;
          s6 = s5\<lparr>m_err := err\<rparr>
      in (s6, m_Kp s6 * m_err s6 + m_Ki s6 * m_erri s6 + m_Kd s6 * m_errd s6))"

subsection \<open>The derived class ChPathSteeringController (PID)\<close>

text \<open>
  The curve tracker (\<^verbatim>\<open>ChBezierCurveTracker\<close>) is an external collaborator: its state is
  of an arbitrary type \<open>'tr\<close>, and its closest-point query, which moves its cursor and
  yields the target, is a parameter of the model.  The tracker holds the path.
\<close>
record 'tr ChPathSteeringController = ChSteeringController +
  m_tracker :: 'tr

definition ChPathSteeringController_ctor ::
  "'tr \<Rightarrow> ('tr, 'z) ChPathSteeringController_scheme \<Rightarrow> ('tr, 'z) ChPathSteeringController_scheme" where
  "ChPathSteeringController_ctor tr0 mem = (ChSteeringController_ctor mem)\<lparr>m_tracker := tr0\<rparr>"

definition CalcTargetLocation ::
  "('tr \<Rightarrow> ChVector \<Rightarrow> 'tr \<times> ChVector) \<Rightarrow>
   ('tr, 'z) ChPathSteeringController_scheme \<Rightarrow> ('tr, 'z) ChPathSteeringController_scheme" where
  "CalcTargetLocation calcClosestPoint s =
     (case calcClosestPoint (m_tracker s) (m_sentinel s) of
        (tr, target) \<Rightarrow> s\<lparr>m_tracker := tr, m_target := target\<rparr>)"

definition PID_Advance ::
  "('tr \<Rightarrow> ChVector \<Rightarrow> 'tr \<times> ChVector) \<Rightarrow> ChVehicle \<Rightarrow> real \<Rightarrow>
   ('tr, 'z) ChPathSteeringController_scheme \<Rightarrow> ('tr, 'z) ChPathSteeringController_scheme \<times> real" where
  "PID_Advance calcClosestPoint = Advance (CalcTargetLocation calcClosestPoint)"

subsection \<open>The derived class ChPathSteeringControllerXT\<close>

text \<open>
  The lag filters (\<^verbatim>\<open>utils::ChFilterPT1\<close>, \<^verbatim>\<open>utils::ChFilterPD1\<close>) and the tracker query
  that also yields the curve frame and the curvature are external collaborators.  Their
  states are of arbitrary types and their operations are gathered in one record of
  parameters: nothing is assumed of what they compute.
\<close>
record ('tr, 'pt1, 'pd1) collaborators =
  calcClosestPointTNB :: "'tr \<Rightarrow> ChVector \<Rightarrow> 'tr \<times> ChFrame \<times> real"
  PT1_default :: "'pt1"                                   \<comment> \<open>\<^verbatim>\<open>ChFilterPT1()\<close>\<close>
  PT1_new :: "real \<Rightarrow> real \<Rightarrow> 'pt1"                         \<comment> \<open>\<^verbatim>\<open>ChFilterPT1(step, T1)\<close>\<close>
  PT1_Config :: "real \<Rightarrow> real \<Rightarrow> 'pt1 \<Rightarrow> 'pt1"
  PT1_Filter :: "'pt1 \<Rightarrow> real \<Rightarrow> 'pt1 \<times> real"
  PD1_default :: "'pd1"
  PD1_Config :: "real \<Rightarrow> real \<Rightarrow> real \<Rightarrow> real \<Rightarrow> 'pd1 \<Rightarrow> 'pd1"
  PD1_Filter :: "'pd1 \<Rightarrow> real \<Rightarrow> 'pd1 \<times> real"

record ('tr, 'pt1, 'pd1) ChPathSteeringControllerXT = ChSteeringController +
  m_tracker_XT :: 'tr
  m_R_threshold :: real
  m_max_wheel_turn_angle :: real
  m_ptangent :: ChVector
  m_pnormal :: ChVector
  m_pbinormal :: ChVector
  m_pcurvature :: real
  m_HeadErrDelay :: 'pt1
  m_AckermannAngleDelay :: 'pt1
  m_PathErrCtl :: 'pd1
  m_filters_initialized :: bool
  m_T1_delay :: real
  m_Kp_XT :: real                      \<comment> \<open>the member \<^verbatim>\<open>m_Kp\<close> of the XT class itself\<close>
  m_Wy :: real
  m_Wh :: real
  m_Wa :: real
  m_res :: real
  m_vel :: ChVector

text \<open>
  The constructor without a file: the base class is default-constructed, the tracker is
  created on the path (\<open>tr0\<close> is the new tracker), the filters are default-constructed.
\<close>
definition ChPathSteeringControllerXT_ctor ::
  "('tr, 'pt1, 'pd1) collaborators \<Rightarrow> 'tr \<Rightarrow> real \<Rightarrow>
   ('tr, 'pt1, 'pd1) ChPathSteeringControllerXT \<Rightarrow> ('tr, 'pt1, 'pd1) ChPathSteeringControllerXT" where
  "ChPathSteeringControllerXT_ctor env tr0 max_wheel_turn_angle mem =
     (let s = (ChSteeringController_ctor mem)
                \<lparr>m_tracker_XT := tr0,
                 m_R_threshold := 100000,
                 m_max_wheel_turn_angle := 25 * CH_C_DEG_TO_RAD,
                 m_HeadErrDelay := PT1_default env,
                 m_AckermannAngleDelay := PT1_default env,
                 m_PathErrCtl := PD1_default env,
                 m_filters_initialized := False,
                 m_T1_delay := 30 / 1000,
                 m_Kp_XT := 0.4, m_Wy := 1, m_Wh := 1, m_Wa := 1, m_res := 0\<rparr>
      in if max_wheel_turn_angle > 0
         then s\<lparr>m_max_wheel_turn_angle := max_wheel_turn_angle\<rparr> else s)"

definition XT_CalcTargetLocation ::
  "('tr, 'pt1, 'pd1) collaborators \<Rightarrow>
   ('tr, 'pt1, 'pd1) ChPathSteeringControllerXT \<Rightarrow> ('tr, 'pt1, 'pd1) ChPathSteeringControllerXT" where
  "XT_CalcTargetLocation env s =
     (case calcClosestPointTNB env (m_tracker_XT s) (m_sentinel s) of
        (tr, tnb, curvature) \<Rightarrow>
          s\<lparr>m_tracker_XT := tr, m_pcurvature := curvature,
            m_target := frame_GetPos tnb,
            m_ptangent := GetXaxis (GetRot tnb),
            m_pnormal := GetYaxis (GetRot tnb),
            m_pbinormal := GetZaxis (GetRot tnb)\<rparr>)"

text \<open>
  \<^verbatim>\<open>CalcHeadingError(a, b)\<close> writes \<^verbatim>\<open>m_vel\<close> and its two reference arguments; the model
  returns the new \<^verbatim>\<open>m_vel\<close>, the two vectors as they are when the cross product is taken,
  and the angle.  This is the function in exact arithmetic, where the length of a
  normalized vector is 1 and the argument of \<^verbatim>\<open>std::asin\<close> is within \<open>[-1, 1]\<close>;
  \<open>XT_CalcHeadingError_rnd\<close> below is the function with rounded normalization and
  length and with an angle that may be NaN.
\<close>
definition XT_CalcHeadingError ::
  "ChVector \<Rightarrow> ChVector \<Rightarrow> ChVector \<Rightarrow> ChVector \<times> ChVector \<times> ChVector \<times> real" where
  "XT_CalcHeadingError vel0 a0 b0 =
     (let vel = Normalize (Project vel0);
          speed = Length vel;
          a = (if speed < 1 then Normalize (Project a0) else vel);
          b = Normalize (Project b0);
          ab = Vsub a b;
          ltest = Length ab;
          vpc = (if ltest < 1 then Vcross a b else Vcross a (Vneg b))
      in (vel, a, b, arcsin (Height vpc)))"

definition CalcCurvatureCode :: "real \<Rightarrow> real \<Rightarrow> ChVector \<Rightarrow> ChVector \<Rightarrow> int" where
  "CalcCurvatureCode pcurvature R_threshold a0 b0 =
     (let a = Normalize (Project a0);
          b = Normalize (Project b0);
          ab = Vsub a b;
          ltest = Length ab
      in if pcurvature \<le> 1 / R_threshold then 0
         else if ltest < 1 then 1
         else -1)"

definition CalcAckermannAngle :: "('tr, 'pt1, 'pd1) ChPathSteeringControllerXT \<Rightarrow> real" where
  "CalcAckermannAngle s = sin (m_res s * m_max_wheel_turn_angle s)"

text \<open>
  The first part of \<^verbatim>\<open>ChPathSteeringControllerXT::Advance\<close>, up to the weighted sum
  \<^verbatim>\<open>res\<close> of the three filtered channels: the state reached there, and \<^verbatim>\<open>res\<close>.
\<close>
definition XT_blend ::
  "('tr, 'pt1, 'pd1) collaborators \<Rightarrow> ChVehicle \<Rightarrow> real \<Rightarrow>
   ('tr, 'pt1, 'pd1) ChPathSteeringControllerXT \<Rightarrow>
   ('tr, 'pt1, 'pd1) ChPathSteeringControllerXT \<times> real" where
  "XT_blend env vehicle step s0 =
     (let chassis_frame = GetFrame_REF_to_abs vehicle;
          chassis_rot = GetRot chassis_frame;
          s1 = s0\<lparr>m_sentinel := TransformPointLocalToParent chassis_frame
                                     (Vscale (m_dist s0) Forward),
                  m_vel := GetPointVelocity vehicle\<rparr>;
          s2 = (if \<not> m_filters_initialized s1
                then s1\<lparr>m_HeadErrDelay := PT1_Config env step (m_T1_delay s1) (m_HeadErrDelay s1),
                        m_AckermannAngleDelay :=
                          PT1_Config env step (m_T1_delay s1) (m_AckermannAngleDelay s1),
                        m_PathErrCtl :=
                          PD1_Config env step 0.3 0.15 (m_Kp_XT s1) (m_PathErrCtl s1),
                        m_filters_initialized := True\<rparr>
                else s1);
          s3 = XT_CalcTargetLocation env s2;
          s4 = collect_row vehicle s3;
          y_err = lateral_error vehicle s4;
          (f1, y_err_out) = PD1_Filter env (m_PathErrCtl s4) y_err;
          s5 = s4\<lparr>m_PathErrCtl := f1\<rparr>;
          veh_head = GetXaxis chassis_rot;
          path_head = m_ptangent s5;
          (vel, a, b, h_err) = XT_CalcHeadingError (m_vel s5) veh_head path_head;
          s6 = s5\<lparr>m_vel := vel\<rparr>;
          (f2, h_err_out) = PT1_Filter env (m_HeadErrDelay s6) h_err;
          s7 = s6\<lparr>m_HeadErrDelay := f2\<rparr>;
          a_err = CalcAckermannAngle s7;
          (f3, a_err_out) = PT1_Filter env (m_AckermannAngleDelay s7) a_err;
          s8 = s7\<lparr>m_AckermannAngleDelay := f3\<rparr>;
          res = m_Wy s8 * y_err_out + m_Wh s8 * h_err_out + m_Wa s8 * a_err_out
      in (s8, res))"

text \<open>The counter-steer constraint: the \<^verbatim>\<open>switch\<close> on the curvature code.\<close>
definition counter_steer :: "int \<Rightarrow> real \<Rightarrow> real" where
  "counter_steer crvcode res =
     (if crvcode = 1 then ChClamp res 0 1
      else if crvcode = -1 then ChClamp res (-1) 0
      else ChClamp res (-1) 1)"

definition XT_Advance ::
  "('tr, 'pt1, 'pd1) collaborators \<Rightarrow> ChVehicle \<Rightarrow> real \<Rightarrow>
   ('tr, 'pt1, 'pd1) ChPathSteeringControllerXT \<Rightarrow>
   ('tr, 'pt1, 'pd1) ChPathSteeringControllerXT \<times> real" where
  "XT_Advance env vehicle step s0 =
     (case XT_blend env vehicle step s0 of
        (s8, res) \<Rightarrow>
          let veh_left = GetYaxis (GetRot (GetFrame_REF_to_abs vehicle));
              path_left = m_pnormal s8;
              crvcode = CalcCurvatureCode (m_pcurvature s8) (m_R_threshold s8) veh_left path_left;
              s9 = s8\<lparr>m_res := counter_steer crvcode res\<rparr>
          in (s9, m_res s9))"

subsection \<open>Faults and the configuration document\<close>

text \<open>
  Where the C++ reads a vector out of range, or a required JSON member is absent or of
  the wrong type (a failed assertion of the JSON library), the model returns a fault.
\<close>
datatype fault = OutOfRange | JsonAssert

definition and_then :: "fault + 'a \<Rightarrow> ('a \<Rightarrow> fault + 'b) \<Rightarrow> fault + 'b" where
  "and_then r f = (case r of Inl e \<Rightarrow> Inl e | Inr x \<Rightarrow> f x)"

text \<open>
  Modelled from the spec: the JSON document (\<^verbatim>\<open>rapidjson::Document\<close>) that
  \<^verbatim>\<open>ReadFileJSON(filename, d)\<close> of chrono_vehicle/utils/ChUtilsJSON.h leaves in \<^verbatim>\<open>d\<close>:
  \<open>JNull\<close> when the file is absent or malformed ("malformed or absent configuration
  input"), else the parsed value.
\<close>
datatype json = JNull | JNumber real | JString string | JObject "(string \<times> json) list"

text \<open>Modelled from the spec: \<^verbatim>\<open>d.IsNull()\<close>.\<close>
definition IsNull :: "json \<Rightarrow> bool" where
  "IsNull d = (d = JNull)"


text \<open>Modelled from the spec: \<^verbatim>\<open>d[k]\<close>, the member \<open>k\<close> of an object.\<close>
definition member :: "json \<Rightarrow> string \<Rightarrow> fault + json" where
  "member d k =
     (case d of
        JObject ms \<Rightarrow> (case map_of ms k of Some v \<Rightarrow> Inr v | None \<Rightarrow> Inl JsonAssert)
      | _ \<Rightarrow> Inl JsonAssert)"

text \<open>Modelled from the spec: \<^verbatim>\<open>v.GetDouble()\<close>, asked of a number.\<close>
definition GetDouble :: "json \<Rightarrow> fault + real" where
  "GetDouble d = (case d of JNumber r \<Rightarrow> Inr r | _ \<Rightarrow> Inl JsonAssert)"

text \<open>\<^verbatim>\<open>d[k1][k2].GetDouble()\<close> and \<^verbatim>\<open>d[k].GetDouble()\<close>.\<close>
definition double_at2 :: "json \<Rightarrow> string \<Rightarrow> string \<Rightarrow> fault + real" where
  "double_at2 d k1 k2 = and_then (member d k1) (\<lambda>g. and_then (member g k2) GetDouble)"

definition double_at :: "json \<Rightarrow> string \<Rightarrow> fault + real" where
  "double_at d k = and_then (member d k) GetDouble"

text \<open>
  \<^verbatim>\<open>ChSteeringController(const std::string& filename)\<close>: the initializer list names
  neither \<^verbatim>\<open>m_dist\<close> nor the gains, and \<^verbatim>\<open>SetGains\<close> is not called.
\<close>
definition ChSteeringController_file_ctor ::
  "json \<Rightarrow> 'z ChSteeringController_scheme \<Rightarrow> fault + 'z ChSteeringController_scheme" where
  "ChSteeringController_file_ctor d mem =
     (let s = mem\<lparr>m_sentinel := Vec 0 0 0, m_target := Vec 0 0 0,
                  m_err := 0, m_erri := 0, m_errd := 0, m_csv := None, m_collect := False\<rparr>
      in if IsNull d then Inr s
         else and_then (double_at2 d ''Gains'' ''Kp'') (\<lambda>kp.
              and_then (double_at2 d ''Gains'' ''Ki'') (\<lambda>ki.
              and_then (double_at2 d ''Gains'' ''Kd'') (\<lambda>kd.
              and_then (double_at d ''Lookahead Distance'') (\<lambda>dist.
                Inr (s\<lparr>m_Kp := kp, m_Ki := ki, m_Kd := kd, m_dist := dist\<rparr>))))))"

definition ChPathSteeringControllerXT_file_ctor ::
  "('tr, 'pt1, 'pd1) collaborators \<Rightarrow> json \<Rightarrow> 'tr \<Rightarrow> real \<Rightarrow>
   ('tr, 'pt1, 'pd1) ChPathSteeringControllerXT \<Rightarrow>
   fault + ('tr, 'pt1, 'pd1) ChPathSteeringControllerXT" where
  "ChPathSteeringControllerXT_file_ctor env d tr0 max_wheel_turn_angle mem =
     (let s = ChPathSteeringControllerXT_ctor env tr0 max_wheel_turn_angle mem
      in if IsNull d then Inr s
         else and_then (double_at2 d ''Gains'' ''Kp'') (\<lambda>kp.
              and_then (double_at2 d ''Gains'' ''Wy'') (\<lambda>wy.
              and_then (double_at2 d ''Gains'' ''Wh'') (\<lambda>wh.
              and_then (double_at2 d ''Gains'' ''Wa'') (\<lambda>wa.
              and_then (double_at d ''Lookahead Distance'') (\<lambda>dist.
                Inr (s\<lparr>m_Kp_XT := kp, m_Wy := wy, m_Wh := wh, m_Wa := wa,
                       m_dist := dist\<rparr>)))))))"

subsection \<open>The derived class ChPathSteeringControllerSR\<close>

text \<open>The path (\<^verbatim>\<open>ChBezierCurve\<close>) is read through its list of points only.\<close>
record ChPathSteeringControllerSR = ChSteeringController +
  m_path :: "ChVector list"
  m_isClosedPath :: bool
  m_Klat :: real
  m_Kug :: real
  m_Tp :: real
  m_L :: real
  m_delta :: real
  m_delta_max :: real
  m_umin :: real
  m_idx_curr :: nat
  S_l :: "ChVector list"
  R_l :: "ChVector list"
  R_lu :: "ChVector list"

text \<open>
  \<^verbatim>\<open>CalcPathPoints\<close>.  With no point at all, \<^verbatim>\<open>np - 1\<close> wraps around and the loop reads
  \<^verbatim>\<open>S_l\<close> out of range; an open path of one point reads \<^verbatim>\<open>S_l[np - 2]\<close> out of range.
\<close>
definition CalcPathPoints :: "ChPathSteeringControllerSR \<Rightarrow> fault + ChPathSteeringControllerSR" where
  "CalcPathPoints s =
     (let np = length (m_path s);
          S = m_path s;
          R = map (\<lambda>i. Vsub (S ! (i + 1)) (S ! i)) [0 ..< np - 1]
      in if m_isClosedPath s
         then if np = 0 then Inl OutOfRange
              else let R' = R @ [Vsub (S ! 0) (S ! (np - 1))]
                   in Inr (s\<lparr>S_l := S, R_l := R', R_lu := map Normalize R'\<rparr>)
         else if np < 2 then Inl OutOfRange
              else let R' = R @ [Vsub (S ! (np - 1)) (S ! (np - 2))]
                   in Inr (s\<lparr>S_l := S, R_l := R', R_lu := map Normalize R'\<rparr>))"

definition ChPathSteeringControllerSR_ctor ::
  "ChVector list \<Rightarrow> bool \<Rightarrow> real \<Rightarrow> real \<Rightarrow>
   ChPathSteeringControllerSR \<Rightarrow> fault + ChPathSteeringControllerSR" where
  "ChPathSteeringControllerSR_ctor path isClosedPath max_wheel_turn_angle axle_space mem =
     CalcPathPoints
       ((ChSteeringController_ctor mem)
          \<lparr>m_path := path, m_isClosedPath := isClosedPath, m_Klat := 0, m_Kug := 0,
           m_Tp := 0.5, m_L := axle_space, m_delta := 0,
           m_delta_max := max_wheel_turn_angle, m_umin := 2, m_idx_curr := 0\<rparr>)"

text \<open>
  The constructor from a file: the initializer list names neither \<^verbatim>\<open>m_Klat\<close>, \<^verbatim>\<open>m_Kug\<close>
  nor \<^verbatim>\<open>m_Tp\<close>, and sets \<^verbatim>\<open>m_umin\<close> to 1.
\<close>
definition ChPathSteeringControllerSR_file_ctor ::
  "json \<Rightarrow> ChVector list \<Rightarrow> bool \<Rightarrow> real \<Rightarrow> real \<Rightarrow>
   ChPathSteeringControllerSR \<Rightarrow> fault + ChPathSteeringControllerSR" where
  "ChPathSteeringControllerSR_file_ctor d path isClosedPath max_wheel_turn_angle axle_space mem =
     and_then
       (CalcPathPoints
          ((ChSteeringController_ctor mem)
             \<lparr>m_path := path, m_isClosedPath := isClosedPath, m_L := axle_space, m_delta := 0,
              m_delta_max := max_wheel_turn_angle, m_umin := 1, m_idx_curr := 0\<rparr>))
       (\<lambda>s. if IsNull d then Inr s
            else and_then (double_at2 d ''Gains'' ''Klat'') (\<lambda>klat.
                 and_then (double_at2 d ''Gains'' ''Kug'') (\<lambda>kug.
                 and_then (double_at d ''Preview Time'') (\<lambda>tp.
                   Inr (s\<lparr>m_Klat := klat, m_Kug := kug, m_Tp := tp\<rparr>)))))"

definition SR_Reset :: "ChVehicle \<Rightarrow> ChPathSteeringControllerSR \<Rightarrow> ChPathSteeringControllerSR" where
  "SR_Reset vehicle s = (Reset vehicle s)\<lparr>m_Klat := 0, m_Kug := 0\<rparr>"

definition SR_SetGains ::
  "real \<Rightarrow> real \<Rightarrow> ChPathSteeringControllerSR \<Rightarrow> ChPathSteeringControllerSR" where
  "SR_SetGains Klat Kug s = s\<lparr>m_Klat := \<bar>Klat\<bar>, m_Kug := ChClamp Kug 0 5\<rparr>"

definition SetPreviewTime :: "real \<Rightarrow> ChPathSteeringControllerSR \<Rightarrow> ChPathSteeringControllerSR" where
  "SetPreviewTime Tp s = s\<lparr>m_Tp := ChClamp Tp 0.2 4\<rparr>"

text \<open>
  Modelled from the spec: \<^verbatim>\<open>ChMatrix33<> RM(theta, ChWorldFrame::Vertical())\<close> applied to a
  vector, "rotation of the look-ahead vector by theta about the vertical axis".
\<close>
definition RotateAboutVertical :: "real \<Rightarrow> ChVector \<Rightarrow> ChVector" where
  "RotateAboutVertical theta v =
     Vec (cos theta * vx v - sin theta * vy v) (sin theta * vx v + cos theta * vy v) (vz v)"

text \<open>The sentinel that \<^verbatim>\<open>ChPathSteeringControllerSR::Advance\<close> computes first.\<close>
definition SR_sentinel :: "ChVehicle \<Rightarrow> ChPathSteeringControllerSR \<Rightarrow> ChVector" where
  "SR_sentinel vehicle s =
     (let g = 9.81;
          chassis_frame = GetFrame_REF_to_abs vehicle;
          chassis_rot = GetRot chassis_frame;
          u = GetSpeed vehicle;
          n_g = Normalize (Project (GetYaxis chassis_rot));
          ut = (if u > m_umin s then u else m_umin s);
          factor = ut * m_Tp s
      in if m_delta s = 0
         then TransformPointLocalToParent chassis_frame (Vscale factor Forward)
         else let R = (m_L s + CH_C_DEG_TO_RAD * m_Kug s * u * u / g) / m_delta s;
                  theta = u * m_Tp s / R
              in Vadd (TransformPointLocalToParent chassis_frame (Vscale factor Forward))
                      (Vscale R (Vsub n_g (RotateAboutVertical theta n_g))))"

text \<open>
  \<^verbatim>\<open>Pt\<close>, \<^verbatim>\<open>rt\<close> and \<^verbatim>\<open>t\<close> for the segment of index \<open>idx\<close>; reading any of the three
  vectors out of range is a fault.
\<close>
definition segment_at ::
  "ChPathSteeringControllerSR \<Rightarrow> nat \<Rightarrow> fault + ChVector \<times> real \<times> real" where
  "segment_at s idx =
     (if idx < length (S_l s) \<and> idx < length (R_l s) \<and> idx < length (R_lu s)
      then let Pt = Vsub (m_sentinel s) (S_l s ! idx)
           in Inr (Pt, Length (R_l s ! idx), \<bar>Vdot Pt (R_lu s ! idx)\<bar>)
      else Inl OutOfRange)"

text \<open>
  The loop \<^verbatim>\<open>while (t > rt)\<close> that advances the segment index.  On a closed path it may
  run forever (the value \<open>None\<close>); on an open path its body runs at most once.
\<close>
partial_function (option) SR_scan ::
  "ChPathSteeringControllerSR \<Rightarrow> nat \<Rightarrow> ChVector \<Rightarrow> real \<Rightarrow> real \<Rightarrow>
   (fault + nat \<times> ChVector \<times> real \<times> real) option" where
  "SR_scan s idx Pt rt t =
     (if t > rt
      then if m_isClosedPath s
           then (case segment_at s (if idx + 1 = length (S_l s) then 0 else idx + 1) of
                   Inl e \<Rightarrow> Some (Inl e)
                 | Inr (Pt', rt', t') \<Rightarrow>
                     SR_scan s (if idx + 1 = length (S_l s) then 0 else idx + 1) Pt' rt' t')
           else (case segment_at s (if idx + 1 = length (S_l s) then length (S_l s) - 1
                                    else idx + 1) of
                   Inl e \<Rightarrow> Some (Inl e)
                 | Inr (Pt', rt', t') \<Rightarrow>
                     Some (Inr (if idx + 1 = length (S_l s) then length (S_l s) - 1 else idx + 1,
                                Pt', rt', t')))
      else Some (Inr (idx, Pt, rt, t)))"

text \<open>What \<^verbatim>\<open>Advance\<close> does once the segment is found.\<close>
definition SR_finish ::
  "ChVehicle \<Rightarrow> ChPathSteeringControllerSR \<Rightarrow> nat \<Rightarrow> ChVector \<Rightarrow> real \<Rightarrow>
   ChPathSteeringControllerSR \<times> real" where
  "SR_finish vehicle s1 idx Pt t =
     (let u = GetSpeed vehicle;
          s2 = s1\<lparr>m_idx_curr := idx,
                  m_target := Vadd (S_l s1 ! idx) (Vscale t (R_lu s1 ! idx))\<rparr>;
          s3 = collect_row vehicle s2;
          n_lu = Vcross (R_lu s3 ! idx) Vertical;
          s4 = s3\<lparr>m_err := Vdot Pt n_lu\<rparr>;
          s5 = (if u \<ge> m_umin s4
                then s4\<lparr>m_delta := ChClamp (m_delta s4 + m_Klat s4 * m_err s4)
                                           (- m_delta_max s4) (m_delta_max s4)\<rparr>
                else s4)
      in (s5, m_delta s5 / m_delta_max s5))"

text \<open>
  \<^verbatim>\<open>ChPathSteeringControllerSR::Advance\<close>: \<open>None\<close> when the scan does not end, a fault
  when a vector is read out of range, else the new state and the steering value.
\<close>
definition SR_Advance ::
  "ChVehicle \<Rightarrow> real \<Rightarrow> ChPathSteeringControllerSR \<Rightarrow>
   (fault + ChPathSteeringControllerSR \<times> real) option" where
  "SR_Advance vehicle step s0 =
     (let s1 = s0\<lparr>m_sentinel := SR_sentinel vehicle s0\<rparr>
      in case segment_at s1 (m_idx_curr s1) of
           Inl e \<Rightarrow> Some (Inl e)
         | Inr (Pt, rt, t) \<Rightarrow>
             (case (if t \<ge> rt then SR_scan s1 (m_idx_curr s1) Pt rt t
                    else Some (Inr (m_idx_curr s1, Pt, rt, t))) of
                None \<Rightarrow> None
              | Some (Inl e) \<Rightarrow> Some (Inl e)
              | Some (Inr (idx, Pt', rt', t')) \<Rightarrow> Some (Inr (SR_finish vehicle s1 idx Pt' t'))))"

subsection \<open>The derived class ChPathSteeringControllerStanley\<close>

record ('tr, 'pt1) ChPathSteeringControllerStanley = ChSteeringController +
  m_delayFilter :: "'pt1 option"       \<comment> \<open>\<open>None\<close> is \<^verbatim>\<open>nullptr\<close>\<close>
  m_isClosedPath_St :: bool
  m_delta_St :: real
  m_delta_max_St :: real
  m_umin_St :: real
  m_Treset :: real
  m_deadZone :: real
  m_Tdelay :: real
  m_tracker_St :: 'tr
  m_ptangent_St :: ChVector
  m_pcurvature_St :: real

definition Stanley_SetGains ::
  "real \<Rightarrow> real \<Rightarrow> real \<Rightarrow> ('tr, 'pt1) ChPathSteeringControllerStanley \<Rightarrow>
   ('tr, 'pt1) ChPathSteeringControllerStanley" where
  "Stanley_SetGains Kp Ki Kd s = s\<lparr>m_Kp := \<bar>Kp\<bar>, m_Ki := \<bar>Ki\<bar>, m_Kd := \<bar>Kd\<bar>\<rparr>"

definition ChPathSteeringControllerStanley_ctor ::
  "'tr \<Rightarrow> bool \<Rightarrow> real \<Rightarrow> ('tr, 'pt1) ChPathSteeringControllerStanley \<Rightarrow>
   ('tr, 'pt1) ChPathSteeringControllerStanley" where
  "ChPathSteeringControllerStanley_ctor tr0 isClosedPath max_wheel_turn_angle mem =
     (Stanley_SetGains 0 0 0
        ((ChSteeringController_ctor mem)
           \<lparr>m_delayFilter := None, m_isClosedPath_St := isClosedPath, m_delta_St := 0,
            m_delta_max_St := max_wheel_turn_angle, m_umin_St := 1, m_Treset := 30,
            m_deadZone := 0, m_Tdelay := 0.4\<rparr>))
     \<lparr>m_tracker_St := tr0\<rparr>"


definition Stanley_CalcTargetLocation ::
  "('tr, 'pt1, 'pd1) collaborators \<Rightarrow> ('tr, 'pt1) ChPathSteeringControllerStanley \<Rightarrow>
   ('tr, 'pt1) ChPathSteeringControllerStanley" where
  "Stanley_CalcTargetLocation env s =
     (case calcClosestPointTNB env (m_tracker_St s) (m_sentinel s) of
        (tr, tnb, curvature) \<Rightarrow>
          s\<lparr>m_tracker_St := tr, m_pcurvature_St := curvature,
            m_target := frame_GetPos tnb,
            m_ptangent_St := GetXaxis (GetRot tnb)\<rparr>)"

text \<open>
  \<^verbatim>\<open>ChPathSteeringControllerStanley::CalcHeadingError\<close> in exact arithmetic, where the
  argument of \<^verbatim>\<open>std::asin\<close> is within \<open>[-1, 1]\<close>; \<open>Stanley_CalcHeadingError_rnd\<close> below
  is the function with rounded normalization and with an angle that may be NaN.
\<close>
definition Stanley_CalcHeadingError :: "ChVector \<Rightarrow> ChVector \<Rightarrow> real" where
  "Stanley_CalcHeadingError a0 b0 =
     (let a = Normalize (Project a0);
          b = Normalize (Project b0);
          vpc = Vcross a b
      in arcsin (Height vpc))"

text \<open>The weight of the dead zone and the attenuated lateral error.\<close>
definition dead_zone_weight :: "real \<Rightarrow> real \<Rightarrow> real" where
  "dead_zone_weight deadZone err =
     (if deadZone > 0 then ChSineStep \<bar>err\<bar> deadZone 0 (2 * deadZone) 1 else 1)"

text \<open>
  The first part of \<^verbatim>\<open>ChPathSteeringControllerStanley::Advance\<close>, up to \<^verbatim>\<open>err *= w\<close>: the
  state reached there, the raw lateral error and the attenuated one.
\<close>
definition Stanley_lateral ::
  "('tr, 'pt1, 'pd1) collaborators \<Rightarrow> ChVehicle \<Rightarrow> real \<Rightarrow>
   ('tr, 'pt1) ChPathSteeringControllerStanley \<Rightarrow>
   ('tr, 'pt1) ChPathSteeringControllerStanley \<times> real \<times> real" where
  "Stanley_lateral env vehicle step s0 =
     (let s1 = (if m_delayFilter s0 = None
                then s0\<lparr>m_delayFilter := Some (PT1_new env step (m_Tdelay s0))\<rparr> else s0);
          chassis_frame = GetFrame_REF_to_abs vehicle;
          s2 = s1\<lparr>m_sentinel := TransformPointLocalToParent chassis_frame
                                     (Vscale (m_dist s1) Forward)\<rparr>;
          s3 = Stanley_CalcTargetLocation env s2;
          s4 = collect_row vehicle s3;
          err0 = lateral_error vehicle s4;
          w = dead_zone_weight (m_deadZone s4) err0
      in (s4, err0, err0 * w))"

text \<open>
  The control law, from the attenuated error \<^verbatim>\<open>err\<close> to the clamped command \<^verbatim>\<open>steer\<close>
  and the handling of the reset timer: the state reached before the delay filter is
  applied, and \<^verbatim>\<open>steer\<close>.
\<close>
definition Stanley_steer ::
  "('tr, 'pt1, 'pd1) collaborators \<Rightarrow> ChVehicle \<Rightarrow> real \<Rightarrow>
   ('tr, 'pt1) ChPathSteeringControllerStanley \<Rightarrow>
   ('tr, 'pt1) ChPathSteeringControllerStanley \<times> real" where
  "Stanley_steer env vehicle step s0 =
     (case Stanley_lateral env vehicle step s0 of
        (s4, err0, err) \<Rightarrow>
          let u = GetSpeed vehicle;
              err_dot = - u * sin (arctan (m_Kp s4 * err / ChClamp u (m_umin_St s4) u));
              veh_head = GetXaxis (GetRot (GetFrame_REF_to_abs vehicle));
              path_head = m_ptangent_St s4;
              s5 = s4\<lparr>m_erri := m_erri s4 + (err + m_err s4) * step / 2\<rparr>;
              s6 = s5\<lparr>m_err := err\<rparr>;
              h_err = Stanley_CalcHeadingError veh_head path_head;
              s7 = s6\<lparr>m_delta_St := h_err + arctan (m_Kp s6 * err / ChClamp u (m_umin_St s6) u)
                                    + m_Kd s6 * err_dot + m_Ki s6 * m_erri s6\<rparr>;
              steer = ChClamp (m_delta_St s7 / m_delta_max_St s7) (-1) 1;
              s8 = s7\<lparr>m_Treset := m_Treset s7 - step\<rparr>;
              s9 = (if m_Treset s8 \<le> 0 then s8\<lparr>m_Treset := 30, m_err := 0\<rparr> else s8)
          in (s9, steer))"

definition Stanley_Advance ::
  "('tr, 'pt1, 'pd1) collaborators \<Rightarrow> ChVehicle \<Rightarrow> real \<Rightarrow>
   ('tr, 'pt1) ChPathSteeringControllerStanley \<Rightarrow>
   ('tr, 'pt1) ChPathSteeringControllerStanley \<times> real" where
  "Stanley_Advance env vehicle step s0 =
     (let f = (case m_delayFilter s0 of None \<Rightarrow> PT1_new env step (m_Tdelay s0) | Some f0 \<Rightarrow> f0)
      in case Stanley_steer env vehicle step s0 of
           (s9, steer) \<Rightarrow>
             (case PT1_Filter env f steer of
                (f', out) \<Rightarrow> (s9\<lparr>m_delayFilter := Some f'\<rparr>, out)))"

text \<open>
  Consecutive \<^verbatim>\<open>Advance\<close> calls on the SR controller, one per pair of vehicle state and
  step; the run stops at the first call that faults or does not return.
\<close>
fun SR_run ::
  "(ChVehicle \<times> real) list \<Rightarrow> ChPathSteeringControllerSR \<Rightarrow>
   (fault + ChPathSteeringControllerSR) option" where
  "SR_run [] s = Some (Inr s)"
| "SR_run ((vehicle, step) # calls) s =
     (case SR_Advance vehicle step s of
        None \<Rightarrow> None
      | Some (Inl e) \<Rightarrow> Some (Inl e)
      | Some (Inr (s', out)) \<Rightarrow> SR_run calls s')"

subsection \<open>Doubles that are not numbers, and rounded normalization\<close>

text \<open>
  A double as the clamps and \<^verbatim>\<open>std::asin\<close> see it: a number or NaN.  (An infinity
  compares like a number and is clamped like one.)
\<close>
datatype double = Number real | NaN

text \<open>
  Modelled from the spec: \<^verbatim>\<open>std::asin\<close>, which is NaN for an argument outside
  \<open>[-1, 1]\<close>.
\<close>
definition asin_d :: "real \<Rightarrow> double" where
  "asin_d x = (if - 1 \<le> x \<and> x \<le> 1 then Number (arcsin x) else NaN)"

text \<open>
  Modelled from the spec: \<^verbatim>\<open>ChClamp\<close> on a double that may be NaN.  Its two tests
  \<^verbatim>\<open>value < limitMin\<close> and \<^verbatim>\<open>value > limitMax\<close> are both false for NaN, so NaN is returned
  as it is.
\<close>
definition ChClamp_d :: "double \<Rightarrow> real \<Rightarrow> real \<Rightarrow> double" where
  "ChClamp_d v limitMin limitMax =
     (case v of NaN \<Rightarrow> NaN | Number x \<Rightarrow> Number (ChClamp x limitMin limitMax))"

text \<open>The \<^verbatim>\<open>switch\<close> of the XT controller on a blend that may be NaN.\<close>
definition counter_steer_d :: "int \<Rightarrow> double \<Rightarrow> double" where
  "counter_steer_d crvcode res =
     (if crvcode = 1 then ChClamp_d res 0 1
      else if crvcode = -1 then ChClamp_d res (-1) 0
      else ChClamp_d res (-1) 1)"

text \<open>
  What \<^verbatim>\<open>ChPathSteeringControllerXT::Advance\<close> stores in \<^verbatim>\<open>m_res\<close> and returns in the call
  on \<open>s\<close>, when the weighted sum of the three channels comes out as the double \<open>res\<close>:
  the curvature code is the one of the call.
\<close>
definition XT_return_d ::
  "('tr, 'pt1, 'pd1) collaborators \<Rightarrow> ChVehicle \<Rightarrow> real \<Rightarrow>
   ('tr, 'pt1, 'pd1) ChPathSteeringControllerXT \<Rightarrow> double \<Rightarrow> double" where
  "XT_return_d env vehicle step s res =
     counter_steer_d
       (CalcCurvatureCode (m_pcurvature (fst (XT_blend env vehicle step s)))
          (m_R_threshold (fst (XT_blend env vehicle step s)))
          (GetYaxis (GetRot (GetFrame_REF_to_abs vehicle)))
          (m_pnormal (fst (XT_blend env vehicle step s))))
       res"

text \<open>
  The command \<^verbatim>\<open>steer = ChClamp(m_delta / m_delta_max, -1.0, 1.0)\<close> of the Stanley
  controller, when the quotient comes out as the double \<open>ratio\<close>.
\<close>
definition Stanley_command_d :: "double \<Rightarrow> double" where
  "Stanley_command_d ratio = ChClamp_d ratio (-1) 1"

text \<open>
  \<^verbatim>\<open>ChVector::Normalize\<close> and \<^verbatim>\<open>ChVector::Length\<close> as the machine computes them, with
  their rounding: parameters of which nothing is assumed.
\<close>
record rounding =
  rnd_Normalize :: "ChVector \<Rightarrow> ChVector"
  rnd_Length :: "ChVector \<Rightarrow> real"

text \<open>Exact arithmetic: no rounding.\<close>
definition exact :: rounding where
  "exact = \<lparr>rnd_Normalize = Normalize, rnd_Length = Length\<rparr>"


text \<open>
  \<^verbatim>\<open>ChPathSteeringControllerStanley::CalcHeadingError\<close> with rounded normalization and the
  result of \<^verbatim>\<open>std::asin\<close> as a double.  \<open>Stanley_CalcHeadingError\<close> is its instance in
  exact arithmetic.
\<close>
definition Stanley_CalcHeadingError_rnd :: "rounding \<Rightarrow> ChVector \<Rightarrow> ChVector \<Rightarrow> double" where
  "Stanley_CalcHeadingError_rnd r a0 b0 =
     (let a = rnd_Normalize r (Project a0);
          b = rnd_Normalize r (Project b0);
          vpc = Vcross a b
      in asin_d (Height vpc))"

subsection \<open>Concrete inputs\<close>

text \<open>
  A vehicle at \<open>p\<close> whose chassis axes are the world axes, with speed \<open>u\<close> and velocity \<open>vel\<close>;
  a tracker that answers every query with the point \<open>target\<close>, the world axes as curve
  frame and the curvature \<open>curvature\<close>; filters that hand their input through; and object
  storage holding 7 in every number before a constructor runs.
\<close>
definition ex_frame :: "ChVector \<Rightarrow> ChFrame" where
  "ex_frame p = \<lparr>frame_GetPos = p,
                 GetRot = \<lparr>GetXaxis = Vec 1 0 0, GetYaxis = Vec 0 1 0, GetZaxis = Vec 0 0 1\<rparr>\<rparr>"

definition ex_vehicle :: "ChVector \<Rightarrow> real \<Rightarrow> ChVector \<Rightarrow> ChVehicle" where
  "ex_vehicle p u vel =
     \<lparr>GetFrame_REF_to_abs = ex_frame p, GetPos = p, GetSpeed = u,
      GetPointVelocity = vel, GetChTime = 0\<rparr>"

definition ex_closest :: "ChVector \<Rightarrow> unit \<Rightarrow> ChVector \<Rightarrow> unit \<times> ChVector" where
  "ex_closest target tr p = (tr, target)"

definition ex_env :: "ChVector \<Rightarrow> real \<Rightarrow> (unit, unit, unit) collaborators" where
  "ex_env target curvature =
     \<lparr>calcClosestPointTNB = (\<lambda>tr p. (tr, ex_frame target, curvature)),
      PT1_default = (), PT1_new = (\<lambda>step T1. ()),
      PT1_Config = (\<lambda>step T1 f. f), PT1_Filter = (\<lambda>f u. (f, u)),
      PD1_default = (), PD1_Config = (\<lambda>step T1 Tv Kdt1 f. f), PD1_Filter = (\<lambda>f u. (f, u))\<rparr>"

definition ex_storage :: ChSteeringController where
  "ex_storage =
     \<lparr>m_dist = 7, m_sentinel = Vec 7 7 7, m_target = Vec 7 7 7, m_err = 7, m_erri = 7,
      m_errd = 7, m_Kp = 7, m_Ki = 7, m_Kd = 7, m_csv = None, m_collect = False\<rparr>"

definition ex_storage_PID :: "unit ChPathSteeringController" where
  "ex_storage_PID =
     \<lparr>m_dist = 7, m_sentinel = Vec 7 7 7, m_target = Vec 7 7 7, m_err = 7, m_erri = 7,
      m_errd = 7, m_Kp = 7, m_Ki = 7, m_Kd = 7, m_csv = None, m_collect = False,
      m_tracker = ()\<rparr>"

definition ex_storage_XT :: "(unit, unit, unit) ChPathSteeringControllerXT" where
  "ex_storage_XT =
     \<lparr>m_dist = 7, m_sentinel = Vec 7 7 7, m_target = Vec 7 7 7, m_err = 7, m_erri = 7,
      m_errd = 7, m_Kp = 7, m_Ki = 7, m_Kd = 7, m_csv = None, m_collect = False,
      m_tracker_XT = (), m_R_threshold = 7, m_max_wheel_turn_angle = 7,
      m_ptangent = Vec 7 7 7, m_pnormal = Vec 7 7 7, m_pbinormal = Vec 7 7 7,
      m_pcurvature = 7, m_HeadErrDelay = (), m_AckermannAngleDelay = (), m_PathErrCtl = (),
      m_filters_initialized = True, m_T1_delay = 7, m_Kp_XT = 7, m_Wy = 7, m_Wh = 7,
      m_Wa = 7, m_res = 7, m_vel = Vec 7 7 7\<rparr>"

definition ex_storage_SR :: ChPathSteeringControllerSR where
  "ex_storage_SR =
     \<lparr>m_dist = 7, m_sentinel = Vec 7 7 7, m_target = Vec 7 7 7, m_err = 7, m_erri = 7,
      m_errd = 7, m_Kp = 7, m_Ki = 7, m_Kd = 7, m_csv = None, m_collect = False,
      m_path = [], m_isClosedPath = True, m_Klat = 7, m_Kug = 7, m_Tp = 7, m_L = 7,
      m_delta = 7, m_delta_max = 7, m_umin = 7, m_idx_curr = 7, S_l = [], R_l = [],
      R_lu = []\<rparr>"

definition ex_storage_Stanley :: "(unit, unit) ChPathSteeringControllerStanley" where
  "ex_storage_Stanley =
     \<lparr>m_dist = 7, m_sentinel = Vec 7 7 7, m_target = Vec 7 7 7, m_err = 7, m_erri = 7,
      m_errd = 7, m_Kp = 7, m_Ki = 7, m_Kd = 7, m_csv = None, m_collect = False,
      m_delayFilter = None, m_isClosedPath_St = True, m_delta_St = 7, m_delta_max_St = 7,
      m_umin_St = 7, m_Treset = 7, m_deadZone = 7, m_Tdelay = 7, m_tracker_St = (),
      m_ptangent_St = Vec 7 7 7, m_pcurvature_St = 7\<rparr>"

text \<open>A straight open path along the X axis.\<close>
definition ex_path :: "ChVector list" where
  "ex_path = [Vec 0 0 0, Vec 10 0 0, Vec 20 0 0]"

text \<open>
  Controllers as their constructors leave them, then given gains and, where the variant
  reads it, a look-ahead distance of 5.
\<close>
definition ex_PID :: "unit ChPathSteeringController" where
  "ex_PID = SetGains 10 2 1 ((ChPathSteeringController_ctor () ex_storage_PID)\<lparr>m_dist := 5\<rparr>)"

definition ex_XT :: "(unit, unit, unit) ChPathSteeringControllerXT" where
  "ex_XT = (ChPathSteeringControllerXT_ctor (ex_env (Vec 0 0 0) 0) () 0 ex_storage_XT)\<lparr>m_dist := 5\<rparr>"

definition ex_SR :: ChPathSteeringControllerSR where
  "ex_SR = (case ChPathSteeringControllerSR_ctor ex_path False (1/2) 3 ex_storage_SR of
              Inr s \<Rightarrow> SR_SetGains 1 0 s | Inl e \<Rightarrow> ex_storage_SR)"

definition ex_Stanley :: "(unit, unit) ChPathSteeringControllerStanley" where
  "ex_Stanley =
     Stanley_SetGains 1 1 0
       ((ChPathSteeringControllerStanley_ctor () False (1/2) ex_storage_Stanley)\<lparr>m_dist := 5\<rparr>)"


text \<open>The segment table as \<^verbatim>\<open>CalcPathPoints\<close> leaves it, with the current index inside.\<close>
definition table_ok :: "ChPathSteeringControllerSR \<Rightarrow> bool" where
  "table_ok s \<longleftrightarrow> length (R_l s) = length (S_l s) \<and> length (R_lu s) = length (S_l s)
                  \<and> m_idx_curr s < length (S_l s)"

text \<open>
  The same collaborators with a curve frame whose normal points to the right of the
  vehicle (a right bend).
\<close>
definition ex_env_right :: "ChVector \<Rightarrow> real \<Rightarrow> (unit, unit, unit) collaborators" where
  "ex_env_right target curvature =
     (ex_env target curvature)
       \<lparr>calcClosestPointTNB :=
          (\<lambda>tr p. (tr, \<lparr>frame_GetPos = target,
                         GetRot = \<lparr>GetXaxis = Vec 1 0 0, GetYaxis = Vec 0 (- 1) 0,
                                   GetZaxis = Vec 0 0 (- 1)\<rparr>\<rparr>, curvature))\<rparr>"

text \<open>An XT controller constructed with a maximum wheel angle of \<open>pi\<close>.\<close>
definition ex_XT_wide :: "(unit, unit, unit) ChPathSteeringControllerXT" where
  "ex_XT_wide = (ChPathSteeringControllerXT_ctor (ex_env (Vec 0 0 0) 0) () pi ex_storage_XT)\<lparr>m_dist := 5\<rparr>"


text \<open>
  A delay filter with memory: its state is its last output, and the new output is the
  mean of the state and the input.
\<close>
definition ex_env_lag :: "ChVector \<Rightarrow> real \<Rightarrow> (unit, real, unit) collaborators" where
  "ex_env_lag target curvature =
     \<lparr>calcClosestPointTNB = (\<lambda>tr p. (tr, ex_frame target, curvature)),
      PT1_default = 0, PT1_new = (\<lambda>step T1. 0),
      PT1_Config = (\<lambda>step T1 f. f), PT1_Filter = (\<lambda>f u. ((f + u) / 2, (f + u) / 2)),
      PD1_default = (), PD1_Config = (\<lambda>step T1 Tv Kdt1 f. f), PD1_Filter = (\<lambda>f u. (f, u))\<rparr>"

definition ex_storage_Stanley_lag :: "(unit, real) ChPathSteeringControllerStanley" where
  "ex_storage_Stanley_lag =
     \<lparr>m_dist = 7, m_sentinel = Vec 7 7 7, m_target = Vec 7 7 7, m_err = 7, m_erri = 7,
      m_errd = 7, m_Kp = 7, m_Ki = 7, m_Kd = 7, m_csv = None, m_collect = False,
      m_delayFilter = None, m_isClosedPath_St = True, m_delta_St = 7, m_delta_max_St = 7,
      m_umin_St = 7, m_Treset = 7, m_deadZone = 7, m_Tdelay = 7, m_tracker_St = (),
      m_ptangent_St = Vec 7 7 7, m_pcurvature_St = 7\<rparr>"

text \<open>The example Stanley controller with that filter, after a first call.\<close>
definition ex_Stanley_lag :: "(unit, real) ChPathSteeringControllerStanley" where
  "ex_Stanley_lag =
     fst (Stanley_Advance (ex_env_lag (Vec 5 2 0) 0) (ex_vehicle (Vec 0 1 0) 3 (Vec 3 0 0)) (1/100)
            (Stanley_SetGains 1 1 0
               ((ChPathSteeringControllerStanley_ctor () False (1/2) ex_storage_Stanley_lag)
                  \<lparr>m_dist := 5\<rparr>)))"


section \<open>Properties\<close>

subsection \<open>Vectors\<close>

lemmas vec_defs = Vadd_def Vsub_def Vneg_def Vscale_def Vdot_def Vcross_def Project_def Height_def
  Forward_def Vertical_def TransformPointLocalToParent_def

lemma Length_x [simp]: "Length (Vec x 0 0) = \<bar>x\<bar>"
  by (simp add: Length_def)

lemma Length_y [simp]: "Length (Vec 0 y 0) = \<bar>y\<bar>"
  by (simp add: Length_def)

lemma Length_Vscale: "Length (Vscale k v) = \<bar>k\<bar> * Length v"
proof -
  have "(k * vx v) * (k * vx v) + (k * vy v) * (k * vy v) + (k * vz v) * (k * vz v)
        = (k * k) * (vx v * vx v + vy v * vy v + vz v * vz v)"
    by (simp add: algebra_simps)
  then show ?thesis
    by (simp add: Length_def Vscale_def real_sqrt_mult)
qed

lemma DBL_MIN_pos: "0 < DBL_MIN"
  by (simp add: DBL_MIN_def)

text \<open>A normalized vector has length 1, whatever the vector was.\<close>
lemma Length_Normalize: "Length (Normalize v) = 1"
proof (cases "Length v < DBL_MIN")
  case True
  then show ?thesis by (simp add: Normalize_def)
next
  case False
  with DBL_MIN_pos have "0 < Length v" by linarith
  with False show ?thesis by (simp add: Normalize_def Length_Vscale)
qed

lemma Normalize_half_y: "Normalize (Vec 0 (1/2) 0) = Vec 0 1 0"
  by (simp add: Normalize_def Vscale_def DBL_MIN_def)

lemma Normalize_unit_x: "Normalize (Vec 1 0 0) = Vec 1 0 0"
  by (simp add: Normalize_def Vscale_def DBL_MIN_def)

lemma Normalize_unit_y: "Normalize (Vec 0 1 0) = Vec 0 1 0"
  by (simp add: Normalize_def Vscale_def DBL_MIN_def)

lemmas normalize_simps = Normalize_half_y Normalize_unit_x Normalize_unit_y


lemma ChClamp_range: "lo \<le> hi \<Longrightarrow> lo \<le> ChClamp v lo hi \<and> ChClamp v lo hi \<le> hi"
  by (simp add: ChClamp_def)

subsection \<open>The base controller\<close>

lemma ex_PID_fields:
  "m_dist ex_PID = 5 \<and> m_err ex_PID = 0 \<and> m_erri ex_PID = 0 \<and> m_errd ex_PID = 0
   \<and> m_Kp ex_PID = 10 \<and> m_Ki ex_PID = 2 \<and> m_Kd ex_PID = 1 \<and> m_collect ex_PID = False"
  by (simp add: ex_PID_def SetGains_def ChPathSteeringController_ctor_def
        ChSteeringController_ctor_def)

lemma ex_PID_lateral_error:
  "lateral_error (ex_vehicle (Vec 0 0 0) 1 (Vec 1 0 0))
     (CalcTargetLocation (ex_closest (Vec 5 1 0))
        (ex_PID\<lparr>m_sentinel :=
            TransformPointLocalToParent (GetFrame_REF_to_abs (ex_vehicle (Vec 0 0 0) 1 (Vec 1 0 0)))
              (Vscale 5 Forward)\<rparr>)) = 1"
  by (simp add: lateral_error_def CalcTargetLocation_def ex_closest_def ex_PID_fields
        ex_vehicle_def ex_frame_def vec_defs ChSignum_def Let_def)

text \<open>
  C4.  In one call of the base class's \<^verbatim>\<open>Advance\<close> (here with the target computation of
  the PID path follower, which inherits it) with a positive step: the cached error is the
  signed lateral error of this step, the derivative state becomes
  \<open>(err - err_prev) / step\<close>, the integral state grows by \<open>(err + err_prev) * step / 2\<close>,
  and the value returned is \<open>Kp * err + Ki * erri + Kd * errd\<close> on the updated states.
\<close>
theorem C4_base_advance_pid_states:
  assumes "0 < step"
  shows "case PID_Advance calcClosestPoint vehicle step s of
           (s', out) \<Rightarrow>
             m_err s' = lateral_error vehicle
                          (CalcTargetLocation calcClosestPoint
                             (s\<lparr>m_sentinel :=
                                  TransformPointLocalToParent (GetFrame_REF_to_abs vehicle)
                                    (Vscale (m_dist s) Forward)\<rparr>))
           \<and> m_errd s' = (m_err s' - m_err s) / step
           \<and> m_erri s' = m_erri s + (m_err s' + m_err s) * step / 2
           \<and> out = m_Kp s * m_err s' + m_Ki s * m_erri s' + m_Kd s * m_errd s'"
  by (simp add: PID_Advance_def Advance_def CalcTargetLocation_def collect_row_def
        lateral_error_def Let_def split: prod.splits)

text \<open>
  The witness of C4: the vehicle at the origin, the target one unit to the left of the
  sentinel, a step of 1/2, gains 10, 2 and 1.
\<close>
theorem C4_base_advance_pid_states_witness:
  "(0::real) < 1/2 \<and>
   (case PID_Advance (ex_closest (Vec 5 1 0)) (ex_vehicle (Vec 0 0 0) 1 (Vec 1 0 0)) (1/2) ex_PID of
      (s', out) \<Rightarrow> m_err s' = 1 \<and> m_errd s' = 2 \<and> m_erri s' = 1/4 \<and> out = 25/2)"
proof -
  have h: "(0::real) < 1/2" by simp
  show ?thesis
    using C4_base_advance_pid_states [OF h, where calcClosestPoint = "ex_closest (Vec 5 1 0)"
        and vehicle = "ex_vehicle (Vec 0 0 0) 1 (Vec 1 0 0)" and s = ex_PID]
    by (simp add: ex_PID_lateral_error ex_PID_fields split: prod.splits)
qed

subsection \<open>The range of the steering command\<close>

lemma counter_steer_range: "- 1 \<le> counter_steer c r \<and> counter_steer c r \<le> 1"
  by (simp add: counter_steer_def ChClamp_def)

lemma XT_Advance_out:
  "snd (XT_Advance env vehicle step s) = m_res (fst (XT_Advance env vehicle step s))"
  by (simp add: XT_Advance_def Let_def split: prod.splits)

lemma XT_Advance_res:
  "m_res (fst (XT_Advance env vehicle step s)) =
     counter_steer (CalcCurvatureCode (m_pcurvature (fst (XT_blend env vehicle step s)))
                      (m_R_threshold (fst (XT_blend env vehicle step s)))
                      (GetYaxis (GetRot (GetFrame_REF_to_abs vehicle)))
                      (m_pnormal (fst (XT_blend env vehicle step s))))
       (snd (XT_blend env vehicle step s))"
  by (simp add: XT_Advance_def Let_def split: prod.splits)

lemma ratio_range: "0 < m \<Longrightarrow> \<bar>d\<bar> \<le> m \<Longrightarrow> - 1 \<le> d / m \<and> d / m \<le> (1::real)"
  by (simp add: pos_le_divide_eq pos_divide_le_eq abs_le_iff)

lemma SR_finish_delta:
  assumes "0 \<le> m_delta_max s" "\<bar>m_delta s\<bar> \<le> m_delta_max s"
  shows "\<bar>m_delta (fst (SR_finish vehicle s idx Pt t))\<bar> \<le> m_delta_max s
         \<and> m_delta_max (fst (SR_finish vehicle s idx Pt t)) = m_delta_max s"
  using assms by (auto simp add: SR_finish_def Let_def collect_row_def ChClamp_def abs_le_iff)

lemma SR_finish_out:
  "snd (SR_finish vehicle s idx Pt t) =
     m_delta (fst (SR_finish vehicle s idx Pt t)) / m_delta_max (fst (SR_finish vehicle s idx Pt t))"
  by (simp add: SR_finish_def Let_def)

lemma SR_finish_table:
  "m_idx_curr (fst (SR_finish vehicle s idx Pt t)) = idx
   \<and> S_l (fst (SR_finish vehicle s idx Pt t)) = S_l s
   \<and> R_l (fst (SR_finish vehicle s idx Pt t)) = R_l s
   \<and> R_lu (fst (SR_finish vehicle s idx Pt t)) = R_lu s
   \<and> m_isClosedPath (fst (SR_finish vehicle s idx Pt t)) = m_isClosedPath s"
  by (simp add: SR_finish_def Let_def collect_row_def)

lemma SR_finish_range:
  assumes "0 < m_delta_max s" "\<bar>m_delta s\<bar> \<le> m_delta_max s"
    and "SR_finish vehicle s idx Pt t = (s', out)"
  shows "- 1 \<le> out \<and> out \<le> 1 \<and> \<bar>m_delta s'\<bar> \<le> m_delta_max s' \<and> m_delta_max s' = m_delta_max s"
proof -
  have d: "\<bar>m_delta s'\<bar> \<le> m_delta_max s" "m_delta_max s' = m_delta_max s"
    using SR_finish_delta [of s vehicle idx Pt t] assms by simp_all
  have "out = m_delta s' / m_delta_max s'"
    using SR_finish_out [of vehicle s idx Pt t] assms(3) by simp
  with d assms(1) ratio_range [of "m_delta_max s" "m_delta s'"] show ?thesis by simp
qed

text \<open>Whatever \<^verbatim>\<open>Advance\<close> returns comes out of its last part.\<close>
lemma SR_Advance_finish:
  assumes "SR_Advance vehicle step s = Some (Inr (s', out))"
  shows "\<exists>idx Pt t. SR_finish vehicle (s\<lparr>m_sentinel := SR_sentinel vehicle s\<rparr>) idx Pt t = (s', out)"
  using assms
  by (auto simp add: SR_Advance_def Let_def split: sum.splits option.splits prod.splits)

lemma SR_Advance_range:
  assumes "0 < m_delta_max s" "\<bar>m_delta s\<bar> \<le> m_delta_max s"
    and "SR_Advance vehicle step s = Some (Inr (s', out))"
  shows "- 1 \<le> out \<and> out \<le> 1 \<and> \<bar>m_delta s'\<bar> \<le> m_delta_max s' \<and> m_delta_max s' = m_delta_max s"
proof -
  from assms(3) obtain idx Pt t
    where "SR_finish vehicle (s\<lparr>m_sentinel := SR_sentinel vehicle s\<rparr>) idx Pt t = (s', out)"
    using SR_Advance_finish by blast
  from SR_finish_range [OF _ _ this] assms(1,2) show ?thesis by simp
qed

lemma segment_at_ok:
  "idx < length (S_l s) \<Longrightarrow> length (R_l s) = length (S_l s) \<Longrightarrow> length (R_lu s) = length (S_l s)
   \<Longrightarrow> \<exists>Pt rt t. segment_at s idx = Inr (Pt, rt, t)"
  by (simp add: segment_at_def Let_def)

text \<open>On an open path the scan ends after at most one step, inside the table.\<close>
lemma SR_scan_open:
  assumes "\<not> m_isClosedPath s" "idx < length (S_l s)" "length (R_l s) = length (S_l s)"
    "length (R_lu s) = length (S_l s)"
  shows "\<exists>idx' Pt' rt' t'. SR_scan s idx Pt rt t = Some (Inr (idx', Pt', rt', t'))
                            \<and> idx' < length (S_l s)"
proof (cases "t > rt")
  case False
  then show ?thesis using assms by (subst SR_scan.simps) simp
next
  case True
  let ?i = "if idx + 1 = length (S_l s) then length (S_l s) - 1 else idx + 1"
  have i: "?i < length (S_l s)" using assms(2) by auto
  from segment_at_ok [OF i assms(3,4)] obtain P r u where "segment_at s ?i = Inr (P, r, u)"
    by blast
  then show ?thesis using True assms(1) i by (subst SR_scan.simps) simp
qed

lemma SR_Advance_open_returns:
  assumes "\<not> m_isClosedPath s" "table_ok s"
  shows "\<exists>s' out. SR_Advance vehicle step s = Some (Inr (s', out))
                   \<and> table_ok s' \<and> \<not> m_isClosedPath s'"
proof -
  let ?s1 = "s\<lparr>m_sentinel := SR_sentinel vehicle s\<rparr>"
  have ok: "m_idx_curr ?s1 < length (S_l ?s1)" "length (R_l ?s1) = length (S_l ?s1)"
    "length (R_lu ?s1) = length (S_l ?s1)" "\<not> m_isClosedPath ?s1"
    using assms by (simp_all add: table_ok_def)
  from segment_at_ok [OF ok(1,2,3)] obtain Pt rt t
    where seg: "segment_at ?s1 (m_idx_curr ?s1) = Inr (Pt, rt, t)" by blast
  have "\<exists>idx' Pt' t'. SR_Advance vehicle step s = Some (Inr (SR_finish vehicle ?s1 idx' Pt' t'))
                       \<and> idx' < length (S_l ?s1)"
  proof (cases "t \<ge> rt")
    case True
    from SR_scan_open [OF ok(4,1,2,3)] obtain idx' Pt' rt' t'
      where "SR_scan ?s1 (m_idx_curr ?s1) Pt rt t = Some (Inr (idx', Pt', rt', t'))"
        and "idx' < length (S_l ?s1)" by blast
    with seg True show ?thesis by (simp add: SR_Advance_def Let_def) blast
  next
    case False
    with seg ok(1) show ?thesis by (simp add: SR_Advance_def Let_def) blast
  qed
  then obtain idx' Pt' t'
    where adv: "SR_Advance vehicle step s = Some (Inr (SR_finish vehicle ?s1 idx' Pt' t'))"
      and idx: "idx' < length (S_l ?s1)" by blast
  have "table_ok (fst (SR_finish vehicle ?s1 idx' Pt' t'))
        \<and> \<not> m_isClosedPath (fst (SR_finish vehicle ?s1 idx' Pt' t'))"
    using ok idx by (simp add: table_ok_def SR_finish_table)
  with adv show ?thesis by (cases "SR_finish vehicle ?s1 idx' Pt' t'") auto
qed

lemma Stanley_Advance_out:
  "snd (Stanley_Advance env vehicle step s) =
     snd (PT1_Filter env
            (case m_delayFilter s of None \<Rightarrow> PT1_new env step (m_Tdelay s) | Some f0 \<Rightarrow> f0)
            (snd (Stanley_steer env vehicle step s)))"
  by (simp add: Stanley_Advance_def Let_def split: prod.splits)

text \<open>The example SR controller, as its constructor and \<^verbatim>\<open>SetGains(1, 0)\<close> leave it.\<close>
lemma ex_SR_ctor:
  "ChPathSteeringControllerSR_ctor ex_path False (1/2) 3 ex_storage_SR =
     Inr (ex_storage_SR\<lparr>m_dist := 0, m_sentinel := Vec 0 0 0, m_target := Vec 0 0 0,
            m_err := 0, m_erri := 0, m_errd := 0, m_Kp := 0, m_Ki := 0, m_Kd := 0,
            m_path := ex_path, m_isClosedPath := False, m_Klat := 0, m_Kug := 0,
            m_Tp := 1/2, m_L := 3, m_delta := 0, m_delta_max := 1/2, m_umin := 2, m_idx_curr := 0,
            S_l := ex_path, R_l := [Vec 10 0 0, Vec 10 0 0, Vec 10 0 0],
            R_lu := [Vec 1 0 0, Vec 1 0 0, Vec 1 0 0]\<rparr>)"
  by (simp add: ChPathSteeringControllerSR_ctor_def CalcPathPoints_def ChSteeringController_ctor_def
        SetGains_def ex_storage_SR_def ex_path_def Let_def Vsub_def Normalize_def Vscale_def DBL_MIN_def
        numeral_2_eq_2)

lemma ex_SR_eq:
  "ex_SR = ex_storage_SR\<lparr>m_dist := 0, m_sentinel := Vec 0 0 0, m_target := Vec 0 0 0,
            m_err := 0, m_erri := 0, m_errd := 0, m_Kp := 0, m_Ki := 0, m_Kd := 0,
            m_path := ex_path, m_isClosedPath := False, m_Klat := 1, m_Kug := 0,
            m_Tp := 1/2, m_L := 3, m_delta := 0, m_delta_max := 1/2, m_umin := 2, m_idx_curr := 0,
            S_l := ex_path, R_l := [Vec 10 0 0, Vec 10 0 0, Vec 10 0 0],
            R_lu := [Vec 1 0 0, Vec 1 0 0, Vec 1 0 0]\<rparr>"
  by (simp add: ex_SR_def ex_SR_ctor SR_SetGains_def ChClamp_def)

lemma ex_SR_fields:
  "m_delta ex_SR = 0 \<and> m_delta_max ex_SR = 1/2 \<and> \<not> m_isClosedPath ex_SR \<and> table_ok ex_SR
   \<and> m_Klat ex_SR = 1 \<and> m_Kug ex_SR = 0 \<and> m_umin ex_SR = 2 \<and> m_Tp ex_SR = 1/2"
  by (simp add: ex_SR_eq table_ok_def ex_path_def)

subsection \<open>Clamps on doubles that may be NaN\<close>

lemma ChClamp_d_Number: "ChClamp_d (Number x) lo hi = Number (ChClamp x lo hi)"
  by (simp add: ChClamp_d_def)

text \<open>NaN goes through every clamp, whatever the limits.\<close>
lemma ChClamp_d_NaN: "ChClamp_d NaN lo hi = NaN"
  by (simp add: ChClamp_d_def)

lemma counter_steer_d_Number: "counter_steer_d c (Number x) = Number (counter_steer c x)"
  by (simp add: counter_steer_d_def counter_steer_def ChClamp_d_Number)

lemma counter_steer_d_NaN: "counter_steer_d c NaN = NaN"
  by (simp add: counter_steer_d_def ChClamp_d_NaN)

lemma XT_return_d_Number:
  "XT_return_d env vehicle step s (Number x) =
     Number (counter_steer
               (CalcCurvatureCode (m_pcurvature (fst (XT_blend env vehicle step s)))
                  (m_R_threshold (fst (XT_blend env vehicle step s)))
                  (GetYaxis (GetRot (GetFrame_REF_to_abs vehicle)))
                  (m_pnormal (fst (XT_blend env vehicle step s))))
               x)"
  by (simp add: XT_return_d_def counter_steer_d_Number)

text \<open>
  When the weighted sum of the XT controller is NaN, so are the value returned and the
  one stored in \<^verbatim>\<open>m_res\<close>; when the quotient of the Stanley controller is NaN, so is its
  command.
\<close>
lemma XT_return_d_NaN: "XT_return_d env vehicle step s NaN = NaN"
  by (simp add: XT_return_d_def counter_steer_d_NaN)

lemma XT_return_d_range:
  "\<exists>y. XT_return_d env vehicle step s (Number x) = Number y \<and> - 1 \<le> y \<and> y \<le> 1"
  by (simp add: XT_return_d_Number counter_steer_range)

text \<open>In a call where every double is a number, this is what the real-valued model stores.\<close>
lemma XT_return_d_blend:
  "XT_return_d env vehicle step s (Number (snd (XT_blend env vehicle step s)))
     = Number (m_res (fst (XT_Advance env vehicle step s)))"
  by (simp add: XT_return_d_Number XT_Advance_res)

lemma Stanley_command_d_Number: "Stanley_command_d (Number x) = Number (ChClamp x (- 1) 1)"
  by (simp add: Stanley_command_d_def ChClamp_d_Number)

lemma Stanley_command_d_NaN: "Stanley_command_d NaN = NaN"
  by (simp add: Stanley_command_d_def ChClamp_d_NaN)

lemma Stanley_command_d_range:
  "\<exists>y. Stanley_command_d (Number x) = Number y \<and> - 1 \<le> y \<and> y \<le> 1"
  by (simp add: Stanley_command_d_Number ChClamp_range)

lemma Stanley_steer_command:
  "snd (Stanley_steer env vehicle step s) =
     ChClamp (m_delta_St (fst (Stanley_steer env vehicle step s))
                / m_delta_max_St (fst (Stanley_steer env vehicle step s))) (- 1) 1"
  by (simp add: Stanley_steer_def Let_def case_prod_beta)

lemma Stanley_Advance_filter:
  "m_delayFilter (fst (Stanley_Advance env vehicle step s)) =
     Some (fst (PT1_Filter env
            (case m_delayFilter s of None \<Rightarrow> PT1_new env step (m_Tdelay s) | Some f0 \<Rightarrow> f0)
            (snd (Stanley_steer env vehicle step s))))"
  by (simp add: Stanley_Advance_def Let_def case_prod_beta)

lemma ChClamp_unit: "\<bar>ChClamp v (- 1) 1\<bar> \<le> 1"
  using ChClamp_range [of "- 1" 1 v] by (simp add: abs_le_iff)

lemma ex_env_lag_filter:
  "PT1_Filter (ex_env_lag t c) f u = ((f + u) / 2, (f + u) / 2)"
  "PT1_new (ex_env_lag t c) h T = 0"
  by (simp_all add: ex_env_lag_def)

text \<open>After its first call the example controller holds a filter state within \<open>[-1, 1]\<close>.\<close>
lemma ex_Stanley_lag_filter:
  "\<exists>y. m_delayFilter ex_Stanley_lag = Some y \<and> \<bar>y\<bar> \<le> 1"
proof -
  let ?s0 = "Stanley_SetGains 1 1 0
               ((ChPathSteeringControllerStanley_ctor () False (1/2) ex_storage_Stanley_lag)
                  \<lparr>m_dist := 5\<rparr>)"
  let ?u = "snd (Stanley_steer (ex_env_lag (Vec 5 2 0) 0) (ex_vehicle (Vec 0 1 0) 3 (Vec 3 0 0))
                   (1/100) ?s0)"
  have n: "m_delayFilter ?s0 = None"
    by (simp add: Stanley_SetGains_def ChPathSteeringControllerStanley_ctor_def)
  have "m_delayFilter ex_Stanley_lag = Some (?u / 2)"
    unfolding ex_Stanley_lag_def Stanley_Advance_filter n
    by (simp add: ex_env_lag_filter)
  moreover have "\<bar>?u\<bar> \<le> 1"
    unfolding Stanley_steer_command [of "ex_env_lag (Vec 5 2 0) 0"
        "ex_vehicle (Vec 0 1 0) 3 (Vec 3 0 0)" "1/100" ?s0]
    by (rule ChClamp_unit)
  then have "\<bar>?u / 2\<bar> \<le> 1" by simp
  ultimately show ?thesis by blast
qed

subsection \<open>The range of the steering command\<close>

text \<open>
  C1, as the code has it.  The XT controller returns the clamp of its weighted sum, and
  that clamp is a number in \<open>[-1, 1]\<close> whenever the weighted sum is a number (it is one
  in exact arithmetic, where the real-valued \<^verbatim>\<open>Advance\<close> gives the value).  The SR
  controller, with a positive maximum wheel angle and its steering angle within it (as
  the constructor leaves it and every call keeps it), returns a value in \<open>[-1, 1]\<close>
  whenever \<^verbatim>\<open>Advance\<close> returns, and on an open path with a well-formed segment table it
  does return.  The Stanley controller clamps the quotient of its steering angle and the
  maximum wheel angle, a command in \<open>[-1, 1]\<close> whenever the quotient is a number, and
  hands it to the reaction-delay filter, whose new state it keeps for the next call: what
  it returns is in \<open>[-1, 1]\<close> when the filter state satisfies an invariant \<open>Inv\<close> under
  which the filter maps a command in \<open>[-1, 1]\<close> into \<open>[-1, 1]\<close> and to a state that
  satisfies \<open>Inv\<close> again.  The base class and the PID path follower are not covered: they
  return the PID sum as it is.
\<close>
theorem C1_advance_range_by_variant:
  "XT_return_d env vehicle step xt (Number (snd (XT_blend env vehicle step xt)))
     = Number (snd (XT_Advance env vehicle step xt))
   \<and> (\<forall>x. \<exists>y. XT_return_d env vehicle step xt (Number x) = Number y \<and> - 1 \<le> y \<and> y \<le> 1)
   \<and> (0 < m_delta_max sr \<and> \<bar>m_delta sr\<bar> \<le> m_delta_max sr \<longrightarrow>
        (\<forall>s' out. SR_Advance vehicle step sr = Some (Inr (s', out)) \<longrightarrow>
           - 1 \<le> out \<and> out \<le> 1 \<and> \<bar>m_delta s'\<bar> \<le> m_delta_max s'
           \<and> m_delta_max s' = m_delta_max sr))
   \<and> (\<not> m_isClosedPath sr \<and> table_ok sr \<longrightarrow>
        (\<exists>s' out. SR_Advance vehicle step sr = Some (Inr (s', out))
                   \<and> table_ok s' \<and> \<not> m_isClosedPath s'))
   \<and> Stanley_command_d (Number (m_delta_St (fst (Stanley_steer env' vehicle step st))
                                  / m_delta_max_St (fst (Stanley_steer env' vehicle step st))))
       = Number (snd (Stanley_steer env' vehicle step st))
   \<and> (\<forall>x. \<exists>y. Stanley_command_d (Number x) = Number y \<and> - 1 \<le> y \<and> y \<le> 1)
   \<and> snd (Stanley_Advance env' vehicle step st)
       = snd (PT1_Filter env'
                (case m_delayFilter st of None \<Rightarrow> PT1_new env' step (m_Tdelay st) | Some f0 \<Rightarrow> f0)
                (snd (Stanley_steer env' vehicle step st)))
   \<and> m_delayFilter (fst (Stanley_Advance env' vehicle step st))
       = Some (fst (PT1_Filter env'
                (case m_delayFilter st of None \<Rightarrow> PT1_new env' step (m_Tdelay st) | Some f0 \<Rightarrow> f0)
                (snd (Stanley_steer env' vehicle step st))))
   \<and> (Inv (case m_delayFilter st of None \<Rightarrow> PT1_new env' step (m_Tdelay st) | Some f0 \<Rightarrow> f0)
        \<and> (\<forall>g u. Inv g \<and> - 1 \<le> u \<and> u \<le> 1 \<longrightarrow>
               Inv (fst (PT1_Filter env' g u))
               \<and> - 1 \<le> snd (PT1_Filter env' g u) \<and> snd (PT1_Filter env' g u) \<le> 1)
       \<longrightarrow> (\<forall>x u. Stanley_command_d (Number x) = Number u \<longrightarrow>
               Inv (fst (PT1_Filter env'
                      (case m_delayFilter st of None \<Rightarrow> PT1_new env' step (m_Tdelay st)
                                              | Some f0 \<Rightarrow> f0) u))
               \<and> - 1 \<le> snd (PT1_Filter env'
                      (case m_delayFilter st of None \<Rightarrow> PT1_new env' step (m_Tdelay st)
                                              | Some f0 \<Rightarrow> f0) u)
               \<and> snd (PT1_Filter env'
                      (case m_delayFilter st of None \<Rightarrow> PT1_new env' step (m_Tdelay st)
                                              | Some f0 \<Rightarrow> f0) u) \<le> 1))"
proof -
  let ?F = "case m_delayFilter st of None \<Rightarrow> PT1_new env' step (m_Tdelay st) | Some f0 \<Rightarrow> f0"
  have x1: "XT_return_d env vehicle step xt (Number (snd (XT_blend env vehicle step xt)))
     = Number (snd (XT_Advance env vehicle step xt))"
    by (simp add: XT_return_d_blend XT_Advance_out)
  have x2: "\<forall>x. \<exists>y. XT_return_d env vehicle step xt (Number x) = Number y \<and> - 1 \<le> y \<and> y \<le> 1"
    using XT_return_d_range [of env vehicle step xt] by blast
  have sr1: "0 < m_delta_max sr \<and> \<bar>m_delta sr\<bar> \<le> m_delta_max sr \<longrightarrow>
        (\<forall>s' out. SR_Advance vehicle step sr = Some (Inr (s', out)) \<longrightarrow>
           - 1 \<le> out \<and> out \<le> 1 \<and> \<bar>m_delta s'\<bar> \<le> m_delta_max s'
           \<and> m_delta_max s' = m_delta_max sr)"
    using SR_Advance_range [of sr vehicle step] by blast
  have sr2: "\<not> m_isClosedPath sr \<and> table_ok sr \<longrightarrow>
        (\<exists>s' out. SR_Advance vehicle step sr = Some (Inr (s', out))
                   \<and> table_ok s' \<and> \<not> m_isClosedPath s')"
    using SR_Advance_open_returns [of sr vehicle step] by blast
  have s1: "Stanley_command_d (Number (m_delta_St (fst (Stanley_steer env' vehicle step st))
                                  / m_delta_max_St (fst (Stanley_steer env' vehicle step st))))
       = Number (snd (Stanley_steer env' vehicle step st))"
    by (simp add: Stanley_command_d_Number Stanley_steer_command [symmetric])
  have s2: "\<forall>x. \<exists>y. Stanley_command_d (Number x) = Number y \<and> - 1 \<le> y \<and> y \<le> 1"
    using Stanley_command_d_range by blast
  have s3: "snd (Stanley_Advance env' vehicle step st)
       = snd (PT1_Filter env' ?F (snd (Stanley_steer env' vehicle step st)))"
    by (rule Stanley_Advance_out)
  have s4: "m_delayFilter (fst (Stanley_Advance env' vehicle step st))
       = Some (fst (PT1_Filter env' ?F (snd (Stanley_steer env' vehicle step st))))"
    by (rule Stanley_Advance_filter)
  have s5: "Inv ?F
        \<and> (\<forall>g u. Inv g \<and> - 1 \<le> u \<and> u \<le> 1 \<longrightarrow>
               Inv (fst (PT1_Filter env' g u))
               \<and> - 1 \<le> snd (PT1_Filter env' g u) \<and> snd (PT1_Filter env' g u) \<le> 1)
       \<longrightarrow> (\<forall>x u. Stanley_command_d (Number x) = Number u \<longrightarrow>
               Inv (fst (PT1_Filter env' ?F u))
               \<and> - 1 \<le> snd (PT1_Filter env' ?F u)
               \<and> snd (PT1_Filter env' ?F u) \<le> 1)"
  proof (intro impI allI)
    fix x u
    assume h: "Inv ?F
        \<and> (\<forall>g u. Inv g \<and> - 1 \<le> u \<and> u \<le> 1 \<longrightarrow>
               Inv (fst (PT1_Filter env' g u))
               \<and> - 1 \<le> snd (PT1_Filter env' g u) \<and> snd (PT1_Filter env' g u) \<le> 1)"
      and c: "Stanley_command_d (Number x) = Number u"
    from c have "u = ChClamp x (- 1) 1" by (simp add: Stanley_command_d_Number)
    then have "- 1 \<le> u \<and> u \<le> 1" by (simp add: ChClamp_range)
    with h show "Inv (fst (PT1_Filter env' ?F u))
               \<and> - 1 \<le> snd (PT1_Filter env' ?F u)
               \<and> snd (PT1_Filter env' ?F u) \<le> 1" by blast
  qed
  from x1 x2 sr1 sr2 s1 s2 s3 s4 s5 show ?thesis by (intro conjI)
qed

text \<open>
  The witness of C1: the example controllers, the vehicle one unit to the left of the
  path at speed 3.  The SR controller returns.  The delay filter of the Stanley
  controller has memory (from the state 1 the input 0 gives 1/2), the controller is the
  one a first call has left, and the invariant is that the filter state is within
  \<open>[-1, 1]\<close>: it holds before the call and after it.
\<close>
theorem C1_advance_range_by_variant_witness:
  "(\<exists>y. Number (snd (XT_Advance (ex_env (Vec 5 2 0) 0) (ex_vehicle (Vec 0 1 0) 3 (Vec 3 0 0))
                        (1/100) ex_XT)) = Number y \<and> - 1 \<le> y \<and> y \<le> 1)
   \<and> 0 < m_delta_max ex_SR \<and> \<bar>m_delta ex_SR\<bar> \<le> m_delta_max ex_SR
   \<and> \<not> m_isClosedPath ex_SR \<and> table_ok ex_SR
   \<and> (\<exists>s' out. SR_Advance (ex_vehicle (Vec 0 1 0) 3 (Vec 3 0 0)) (1/100) ex_SR = Some (Inr (s', out))
                 \<and> - 1 \<le> out \<and> out \<le> 1)
   \<and> PT1_Filter (ex_env_lag (Vec 5 2 0) 0) 1 0 = (1/2, 1/2)
   \<and> (\<exists>f. m_delayFilter ex_Stanley_lag = Some f \<and> \<bar>f\<bar> \<le> 1)
   \<and> - 1 \<le> snd (Stanley_Advance (ex_env_lag (Vec 5 2 0) 0) (ex_vehicle (Vec 0 1 0) 3 (Vec 3 0 0))
                   (1/100) ex_Stanley_lag)
   \<and> snd (Stanley_Advance (ex_env_lag (Vec 5 2 0) 0) (ex_vehicle (Vec 0 1 0) 3 (Vec 3 0 0))
            (1/100) ex_Stanley_lag) \<le> 1
   \<and> (\<exists>f. m_delayFilter (fst (Stanley_Advance (ex_env_lag (Vec 5 2 0) 0)
                                 (ex_vehicle (Vec 0 1 0) 3 (Vec 3 0 0)) (1/100) ex_Stanley_lag))
             = Some f \<and> \<bar>f\<bar> \<le> 1)"
proof -
  let ?env = "ex_env (Vec 5 2 0) 0" and ?lag = "ex_env_lag (Vec 5 2 0) 0"
    and ?v = "ex_vehicle (Vec 0 1 0) 3 (Vec 3 0 0)"
  let ?F = "case m_delayFilter ex_Stanley_lag of
              None \<Rightarrow> PT1_new ?lag (1/100) (m_Tdelay ex_Stanley_lag) | Some f0 \<Rightarrow> f0"
  let ?u = "snd (Stanley_steer ?lag ?v (1/100) ex_Stanley_lag)"
  note inst = C1_advance_range_by_variant [where env = ?env and env' = ?lag and vehicle = ?v
      and step = "1/100" and xt = ex_XT and sr = ex_SR and st = ex_Stanley_lag
      and Inv = "\<lambda>f. \<bar>f\<bar> \<le> 1"]
  have sr: "0 < m_delta_max ex_SR \<and> \<bar>m_delta ex_SR\<bar> \<le> m_delta_max ex_SR"
    "\<not> m_isClosedPath ex_SR \<and> table_ok ex_SR"
    by (simp_all add: ex_SR_fields)
  from ex_Stanley_lag_filter obtain f where f: "m_delayFilter ex_Stanley_lag = Some f" "\<bar>f\<bar> \<le> 1"
    by blast
  then have invF: "\<bar>?F\<bar> \<le> 1" by simp
  have filt: "\<forall>g u. \<bar>g\<bar> \<le> 1 \<and> - 1 \<le> u \<and> u \<le> 1 \<longrightarrow>
               \<bar>fst (PT1_Filter ?lag g u)\<bar> \<le> 1
               \<and> - 1 \<le> snd (PT1_Filter ?lag g u) \<and> snd (PT1_Filter ?lag g u) \<le> 1"
    by (simp add: ex_env_lag_filter abs_le_iff)
  from inst sr(2) obtain s' out where
    adv: "SR_Advance ?v (1/100) ex_SR = Some (Inr (s', out))" by blast
  with inst sr(1) have "- 1 \<le> out \<and> out \<le> 1" by blast
  with adv have ex: "\<exists>s' out. SR_Advance ?v (1/100) ex_SR = Some (Inr (s', out))
                 \<and> - 1 \<le> out \<and> out \<le> 1" by blast
  from inst have cmd: "Stanley_command_d
      (Number (m_delta_St (fst (Stanley_steer ?lag ?v (1/100) ex_Stanley_lag))
                 / m_delta_max_St (fst (Stanley_steer ?lag ?v (1/100) ex_Stanley_lag))))
       = Number ?u" by blast
  from inst invF filt have
    "\<forall>x u. Stanley_command_d (Number x) = Number u \<longrightarrow>
        \<bar>fst (PT1_Filter ?lag ?F u)\<bar> \<le> 1
        \<and> - 1 \<le> snd (PT1_Filter ?lag ?F u) \<and> snd (PT1_Filter ?lag ?F u) \<le> 1" by blast
  with cmd have step: "\<bar>fst (PT1_Filter ?lag ?F ?u)\<bar> \<le> 1
        \<and> - 1 \<le> snd (PT1_Filter ?lag ?F ?u) \<and> snd (PT1_Filter ?lag ?F ?u) \<le> 1" by blast
  from inst have out: "snd (Stanley_Advance ?lag ?v (1/100) ex_Stanley_lag)
        = snd (PT1_Filter ?lag ?F ?u)"
    and nf: "m_delayFilter (fst (Stanley_Advance ?lag ?v (1/100) ex_Stanley_lag))
        = Some (fst (PT1_Filter ?lag ?F ?u))" by blast+
  from out step have st: "- 1 \<le> snd (Stanley_Advance ?lag ?v (1/100) ex_Stanley_lag)
        \<and> snd (Stanley_Advance ?lag ?v (1/100) ex_Stanley_lag) \<le> 1" by simp
  from nf step have st2: "\<exists>f. m_delayFilter (fst (Stanley_Advance ?lag ?v (1/100) ex_Stanley_lag))
             = Some f \<and> \<bar>f\<bar> \<le> 1" by blast
  from inst have xa: "XT_return_d ?env ?v (1/100) ex_XT (Number (snd (XT_blend ?env ?v (1/100) ex_XT)))
        = Number (snd (XT_Advance ?env ?v (1/100) ex_XT))"
    and xb: "\<forall>x. \<exists>y. XT_return_d ?env ?v (1/100) ex_XT (Number x) = Number y \<and> - 1 \<le> y \<and> y \<le> 1"
    by blast+
  from xb obtain y where "XT_return_d ?env ?v (1/100) ex_XT (Number (snd (XT_blend ?env ?v (1/100) ex_XT)))
        = Number y \<and> - 1 \<le> y \<and> y \<le> 1" by blast
  with xa have xt: "\<exists>y. Number (snd (XT_Advance ?env ?v (1/100) ex_XT)) = Number y \<and> - 1 \<le> y \<and> y \<le> 1"
    by simp
  have lag: "PT1_Filter ?lag 1 0 = (1/2, 1/2)" by (simp add: ex_env_lag_filter)
  from xt sr ex lag f st st2 show ?thesis by blast
qed

lemma PID_Advance_out:
  "snd (PID_Advance calcClosestPoint vehicle step s) =
     (let err = lateral_error vehicle
                  (CalcTargetLocation calcClosestPoint
                     (s\<lparr>m_sentinel :=
                          TransformPointLocalToParent (GetFrame_REF_to_abs vehicle)
                            (Vscale (m_dist s) Forward)\<rparr>))
      in m_Kp s * err + m_Ki s * (m_erri s + (err + m_err s) * step / 2)
         + m_Kd s * ((err - m_err s) / step))"
  by (simp add: PID_Advance_def Advance_def CalcTargetLocation_def collect_row_def
        lateral_error_def Let_def split: prod.splits)

lemma ex_PID_Advance_out:
  "snd (PID_Advance (ex_closest (Vec 5 1 0)) (ex_vehicle (Vec 0 0 0) 1 (Vec 1 0 0)) (1/2) ex_PID)
     = 25/2"
  by (simp add: PID_Advance_out ex_PID_fields ex_PID_lateral_error)

text \<open>
  The counterexample to C1 as stated: the PID path follower with gains 10, 2 and 1, the
  target one unit to the left of the sentinel and a step of 1/2 returns 25/2.
\<close>
theorem C1_pid_unclamped_counterexample:
  "\<not> (- 1 \<le> snd (PID_Advance (ex_closest (Vec 5 1 0)) (ex_vehicle (Vec 0 0 0) 1 (Vec 1 0 0))
                    (1/2) ex_PID)
      \<and> snd (PID_Advance (ex_closest (Vec 5 1 0)) (ex_vehicle (Vec 0 0 0) 1 (Vec 1 0 0))
                (1/2) ex_PID) \<le> 1)"
  by (simp add: ex_PID_Advance_out)

subsection \<open>The reset timer of the Stanley controller\<close>

lemma ex_Stanley_fields:
  "m_dist ex_Stanley = 5 \<and> m_deadZone ex_Stanley = 0 \<and> m_Treset ex_Stanley = 30
   \<and> m_erri ex_Stanley = 0 \<and> m_err ex_Stanley = 0 \<and> m_Kp ex_Stanley = 1 \<and> m_Ki ex_Stanley = 1
   \<and> m_delayFilter ex_Stanley = None \<and> m_delta_max_St ex_Stanley = 1/2"
  by (simp add: ex_Stanley_def Stanley_SetGains_def ChPathSteeringControllerStanley_ctor_def
        ChSteeringController_ctor_def SetGains_def)

lemma Stanley_lateral_frame:
  "m_erri (fst (Stanley_lateral env vehicle step s)) = m_erri s
   \<and> m_err (fst (Stanley_lateral env vehicle step s)) = m_err s
   \<and> m_Treset (fst (Stanley_lateral env vehicle step s)) = m_Treset s
   \<and> m_deadZone (fst (Stanley_lateral env vehicle step s)) = m_deadZone s"
  by (simp add: Stanley_lateral_def Let_def Stanley_CalcTargetLocation_def collect_row_def
        split: prod.splits)

lemma Stanley_lateral_points:
  "m_sentinel (fst (Stanley_lateral env vehicle step s))
     = TransformPointLocalToParent (GetFrame_REF_to_abs vehicle) (Vscale (m_dist s) Forward)
   \<and> m_target (fst (Stanley_lateral env vehicle step s))
     = frame_GetPos (fst (snd (calcClosestPointTNB env (m_tracker_St s)
          (TransformPointLocalToParent (GetFrame_REF_to_abs vehicle) (Vscale (m_dist s) Forward)))))"
  by (simp add: Stanley_lateral_def Let_def Stanley_CalcTargetLocation_def collect_row_def
        split: prod.splits)

lemma Stanley_lateral_err:
  "snd (Stanley_lateral env vehicle step s) =
     (lateral_error vehicle (fst (Stanley_lateral env vehicle step s)),
      lateral_error vehicle (fst (Stanley_lateral env vehicle step s))
        * dead_zone_weight (m_deadZone s)
            (lateral_error vehicle (fst (Stanley_lateral env vehicle step s))))"
  by (simp add: Stanley_lateral_def Let_def Stanley_CalcTargetLocation_def collect_row_def
        split: prod.splits)

lemma Stanley_steer_state:
  assumes "Stanley_lateral env vehicle step s = (s4, err0, err)"
  shows "m_erri (fst (Stanley_steer env vehicle step s)) = m_erri s4 + (err + m_err s4) * step / 2
       \<and> m_Treset (fst (Stanley_steer env vehicle step s))
           = (if m_Treset s4 - step \<le> 0 then 30 else m_Treset s4 - step)
       \<and> m_err (fst (Stanley_steer env vehicle step s))
           = (if m_Treset s4 - step \<le> 0 then 0 else err)"
  using assms by (simp add: Stanley_steer_def Let_def)

lemma Stanley_Advance_state:
  "m_erri (fst (Stanley_Advance env vehicle step s))
     = m_erri (fst (Stanley_steer env vehicle step s))
   \<and> m_err (fst (Stanley_Advance env vehicle step s))
     = m_err (fst (Stanley_steer env vehicle step s))
   \<and> m_Treset (fst (Stanley_Advance env vehicle step s))
     = m_Treset (fst (Stanley_steer env vehicle step s))"
  by (simp add: Stanley_Advance_def Let_def split: prod.splits)

text \<open>
  In every call the timer goes down by the step; when it expires it is set to 30 again
  and the cached error \<^verbatim>\<open>m_err\<close> is zeroed, while the integral \<^verbatim>\<open>m_erri\<close> keeps the
  value the trapezoidal rule has just given it.
\<close>
lemma Stanley_timer:
  "m_Treset (fst (Stanley_Advance env vehicle step s))
     = (if m_Treset s - step \<le> 0 then 30 else m_Treset s - step)
   \<and> m_erri (fst (Stanley_Advance env vehicle step s))
     = m_erri s + (snd (snd (Stanley_lateral env vehicle step s)) + m_err s) * step / 2
   \<and> m_err (fst (Stanley_Advance env vehicle step s))
     = (if m_Treset s - step \<le> 0 then 0 else snd (snd (Stanley_lateral env vehicle step s)))"
proof -
  obtain s4 err0 err where lat: "Stanley_lateral env vehicle step s = (s4, err0, err)"
    by (cases "Stanley_lateral env vehicle step s") auto
  have s4: "s4 = fst (Stanley_lateral env vehicle step s)" using lat by simp
  have "m_erri s4 = m_erri s" "m_err s4 = m_err s" "m_Treset s4 = m_Treset s"
    unfolding s4 by (simp_all add: Stanley_lateral_frame)
  then show ?thesis
    using Stanley_steer_state [OF lat] lat by (simp add: Stanley_Advance_state)
qed

lemma ex_Stanley_lateral_error:
  "lateral_error (ex_vehicle (Vec 0 0 0) 1 (Vec 1 0 0))
     (fst (Stanley_lateral (ex_env (Vec 5 1 0) 0) (ex_vehicle (Vec 0 0 0) 1 (Vec 1 0 0)) 30
             ex_Stanley)) = 1"
  by (simp add: lateral_error_def Let_def Stanley_lateral_points ex_Stanley_fields
        ex_env_def ex_vehicle_def ex_frame_def vec_defs ChSignum_def)

text \<open>
  C2, evaluated.  The Stanley controller as constructed (timer 30, integral 0, no dead
  zone), the target one unit to the left of the sentinel, one call with a step of 30: the
  timer expires and is set to 30 again, the cached error is zeroed, and the integral is
  15, not 0.
\<close>
theorem C2_stanley_timer_leaves_integral:
  "m_Treset ex_Stanley = 30 \<and> m_erri ex_Stanley = 0 \<and>
   m_Treset (fst (Stanley_Advance (ex_env (Vec 5 1 0) 0) (ex_vehicle (Vec 0 0 0) 1 (Vec 1 0 0)) 30
                    ex_Stanley)) = 30 \<and>
   m_err (fst (Stanley_Advance (ex_env (Vec 5 1 0) 0) (ex_vehicle (Vec 0 0 0) 1 (Vec 1 0 0)) 30
                 ex_Stanley)) = 0 \<and>
   m_erri (fst (Stanley_Advance (ex_env (Vec 5 1 0) 0) (ex_vehicle (Vec 0 0 0) 1 (Vec 1 0 0)) 30
                  ex_Stanley)) = 15"
proof -
  let ?env = "ex_env (Vec 5 1 0) 0" and ?v = "ex_vehicle (Vec 0 0 0) 1 (Vec 1 0 0)"
  have "snd (snd (Stanley_lateral ?env ?v 30 ex_Stanley)) = 1"
    by (simp add: Stanley_lateral_err ex_Stanley_lateral_error ex_Stanley_fields
          dead_zone_weight_def)
  then show ?thesis
    using Stanley_timer [of ?env ?v 30 ex_Stanley] by (simp add: ex_Stanley_fields)
qed

subsection \<open>The heading error of the XT controller\<close>

text \<open>A projected, normalized vector lies in the ground plane and has unit length.\<close>
lemma Normalize_Project_planar:
  "vz (Normalize (Project v)) = 0
   \<and> vx (Normalize (Project v)) * vx (Normalize (Project v))
     + vy (Normalize (Project v)) * vy (Normalize (Project v)) = 1"
proof -
  let ?n = "Normalize (Project v)"
  have z: "vz ?n = 0" by (simp add: Normalize_def Project_def Vscale_def)
  have "Length ?n = 1" by (rule Length_Normalize)
  then have "sqrt (vx ?n * vx ?n + vy ?n * vy ?n + vz ?n * vz ?n) = 1" by (simp add: Length_def)
  then have "vx ?n * vx ?n + vy ?n * vy ?n + vz ?n * vz ?n = 1" by simp
  with z show ?thesis by simp
qed

lemma planar_cross_bound:
  fixes ax ay bx by' :: real
  assumes "ax * ax + ay * ay = 1" "bx * bx + by' * by' = 1"
  shows "\<bar>ax * by' - ay * bx\<bar> \<le> 1"
proof -
  have "(ax * by' - ay * bx)\<^sup>2 + (ax * bx + ay * by')\<^sup>2 = (ax * ax + ay * ay) * (bx * bx + by' * by')"
    by (simp add: power2_eq_square algebra_simps)
  then have "(ax * by' - ay * bx)\<^sup>2 \<le> 1" using assms
    by (metis mult_1 le_add_same_cancel1 zero_le_power2)
  then show ?thesis by (simp add: abs_le_square_iff [symmetric] abs_square_le_1)
qed

text \<open>
  In exact arithmetic the argument of \<^verbatim>\<open>std::asin\<close> is within \<open>[-1, 1]\<close>: the cross
  product of two unit vectors of the ground plane.
\<close>
lemma cross_height_bound:
  "\<bar>Height (Vcross (Normalize (Project a)) (Normalize (Project b)))\<bar> \<le> 1"
  using planar_cross_bound [of "vx (Normalize (Project a))" "vy (Normalize (Project a))"
      "vx (Normalize (Project b))" "vy (Normalize (Project b))"]
    Normalize_Project_planar [of a] Normalize_Project_planar [of b]
  by (simp add: Height_def Vcross_def)


lemma asin_d_in_range: "\<bar>x\<bar> \<le> 1 \<Longrightarrow> asin_d x = Number (arcsin x)"
  by (simp add: asin_d_def abs_le_iff)


lemma Stanley_CalcHeadingError_exact:
  "Stanley_CalcHeadingError_rnd exact a b = Number (Stanley_CalcHeadingError a b)"
  by (simp add: Stanley_CalcHeadingError_rnd_def Stanley_CalcHeadingError_def exact_def Let_def
        asin_d_in_range cross_height_bound)

text \<open>
  A vehicle that stands still: the velocity is too short to be scaled, its normalization
  is the unit X vector of the world, of length 1, and that vector is the first operand,
  not the chassis forward axis.
\<close>
lemma XT_heading_at_rest:
  "fst (snd (XT_CalcHeadingError (Vec 0 0 0) a b)) = Vec 1 0 0"
  by (simp add: XT_CalcHeadingError_def Let_def Project_def Normalize_def DBL_MIN_pos)








subsection \<open>Construction from a configuration file\<close>

lemma CalcPathPoints_frame:
  "CalcPathPoints s = Inr s' \<Longrightarrow>
     m_Klat s' = m_Klat s \<and> m_Kug s' = m_Kug s \<and> m_Tp s' = m_Tp s \<and> m_umin s' = m_umin s
     \<and> m_delta s' = m_delta s \<and> m_delta_max s' = m_delta_max s \<and> m_idx_curr s' = m_idx_curr s
     \<and> m_isClosedPath s' = m_isClosedPath s"
  by (auto simp add: CalcPathPoints_def Let_def split: if_splits)

lemma CalcPathPoints_ex:
  "m_path s = ex_path \<Longrightarrow> \<not> m_isClosedPath s \<Longrightarrow> \<exists>s'. CalcPathPoints s = Inr s'"
  by (simp add: CalcPathPoints_def Let_def ex_path_def)

text \<open>
  C8, evaluated.  With a null document the constructors from a file return without a
  fault, but the base class's constructor has assigned neither the gains nor the
  look-ahead distance, and the SR constructor neither \<^verbatim>\<open>m_Klat\<close>, \<^verbatim>\<open>m_Kug\<close> nor
  \<^verbatim>\<open>m_Tp\<close>: these members hold what the storage held (7 here), where the constructors
  without a file set 0, 0, 0, 0 and 0, 0, 1/2.  The SR constructors also differ in
  \<^verbatim>\<open>m_umin\<close> (1 from a file, 2 without).
\<close>
theorem C8_null_document_leaves_members_unassigned:
  "(\<exists>s. ChSteeringController_file_ctor JNull ex_storage = Inr s
        \<and> m_Kp s = 7 \<and> m_Ki s = 7 \<and> m_Kd s = 7 \<and> m_dist s = 7)
   \<and> m_Kp (ChSteeringController_ctor ex_storage) = 0
   \<and> m_dist (ChSteeringController_ctor ex_storage) = 0
   \<and> (\<exists>s. ChPathSteeringControllerSR_file_ctor JNull ex_path False (1/2) 3 ex_storage_SR = Inr s
        \<and> m_Klat s = 7 \<and> m_Kug s = 7 \<and> m_Tp s = 7 \<and> m_umin s = 1)
   \<and> (\<exists>s. ChPathSteeringControllerSR_ctor ex_path False (1/2) 3 ex_storage_SR = Inr s
        \<and> m_Klat s = 0 \<and> m_Kug s = 0 \<and> m_Tp s = 1/2 \<and> m_umin s = 2)"
proof -
  have base: "\<exists>s. ChSteeringController_file_ctor JNull ex_storage = Inr s
        \<and> m_Kp s = 7 \<and> m_Ki s = 7 \<and> m_Kd s = 7 \<and> m_dist s = 7"
    by (simp add: ChSteeringController_file_ctor_def IsNull_def ex_storage_def Let_def)
  have dflt: "m_Kp (ChSteeringController_ctor ex_storage) = 0"
    "m_dist (ChSteeringController_ctor ex_storage) = 0"
    by (simp_all add: ChSteeringController_ctor_def SetGains_def)
  let ?pre = "(ChSteeringController_ctor ex_storage_SR)
             \<lparr>m_path := ex_path, m_isClosedPath := False, m_L := 3, m_delta := 0,
              m_delta_max := 1/2, m_umin := 1, m_idx_curr := 0\<rparr>"
  obtain s' where cp: "CalcPathPoints ?pre = Inr s'"
    using CalcPathPoints_ex [of ?pre] by auto
  have pre: "ChPathSteeringControllerSR_file_ctor JNull ex_path False (1/2) 3 ex_storage_SR = Inr s'"
    unfolding ChPathSteeringControllerSR_file_ctor_def cp by (simp add: and_then_def IsNull_def)
  have "m_Klat s' = 7 \<and> m_Kug s' = 7 \<and> m_Tp s' = 7 \<and> m_umin s' = 1"
    using CalcPathPoints_frame [OF cp]
    by (simp add: ChSteeringController_ctor_def SetGains_def ex_storage_SR_def)
  with pre have sr: "\<exists>s. ChPathSteeringControllerSR_file_ctor JNull ex_path False (1/2) 3
                            ex_storage_SR = Inr s
        \<and> m_Klat s = 7 \<and> m_Kug s = 7 \<and> m_Tp s = 7 \<and> m_umin s = 1" by blast
  have sr0: "\<exists>s. ChPathSteeringControllerSR_ctor ex_path False (1/2) 3 ex_storage_SR = Inr s
        \<and> m_Klat s = 0 \<and> m_Kug s = 0 \<and> m_Tp s = 1/2 \<and> m_umin s = 2"
    by (simp add: ex_SR_ctor)
  from base dflt sr sr0 show ?thesis by blast
qed

subsection \<open>The counter-steer constraint of the XT controller\<close>

lemma ex_XT_fields:
  "m_dist ex_XT = 5 \<and> m_Wy ex_XT = 1 \<and> m_Wh ex_XT = 1 \<and> m_Wa ex_XT = 1 \<and> m_res ex_XT = 0
   \<and> m_R_threshold ex_XT = 100000 \<and> m_max_wheel_turn_angle ex_XT = 25 * CH_C_DEG_TO_RAD
   \<and> m_collect ex_XT = False \<and> m_filters_initialized ex_XT = False"
  by (simp add: ex_XT_def ChPathSteeringControllerXT_ctor_def ChSteeringController_ctor_def
        SetGains_def Let_def)

lemma XT_blend_frame:
  "m_max_wheel_turn_angle (fst (XT_blend env vehicle step s)) = m_max_wheel_turn_angle s
   \<and> m_R_threshold (fst (XT_blend env vehicle step s)) = m_R_threshold s
   \<and> m_pcurvature (fst (XT_blend env vehicle step s))
       = snd (snd (calcClosestPointTNB env (m_tracker_XT s)
           (TransformPointLocalToParent (GetFrame_REF_to_abs vehicle) (Vscale (m_dist s) Forward))))
   \<and> m_pnormal (fst (XT_blend env vehicle step s))
       = GetYaxis (GetRot (fst (snd (calcClosestPointTNB env (m_tracker_XT s)
           (TransformPointLocalToParent (GetFrame_REF_to_abs vehicle) (Vscale (m_dist s) Forward))))))"
  by (simp add: XT_blend_def Let_def XT_CalcTargetLocation_def collect_row_def case_prod_beta)

lemma XT_Advance_frame:
  "m_max_wheel_turn_angle (fst (XT_Advance env vehicle step s)) = m_max_wheel_turn_angle s"
  by (simp add: XT_Advance_def Let_def case_prod_beta XT_blend_frame)

lemma CalcCurvatureCode_cases:
  "CalcCurvatureCode c R a b = 1 \<or> CalcCurvatureCode c R a b = - 1 \<or> CalcCurvatureCode c R a b = 0"
  by (simp add: CalcCurvatureCode_def Let_def)

lemma CalcCurvatureCode_straight: "c \<le> 1 / R \<Longrightarrow> CalcCurvatureCode c R a b = 0"
  by (simp add: CalcCurvatureCode_def Let_def)

text \<open>
  C5.  With \<open>res\<close> the weighted sum of the three filtered channels and \<open>crvcode\<close> the
  curvature code of the step, \<^verbatim>\<open>Advance\<close> returns what it stores in \<^verbatim>\<open>m_res\<close>: \<open>res\<close>
  clamped to \<open>[0, 1]\<close> when the code is 1, to \<open>[-1, 0]\<close> when it is -1, to \<open>[-1, 1]\<close> when
  it is 0; the code is one of the three, and it is 0 whenever the curvature of the path
  is at most \<open>1 / R_threshold\<close>.
\<close>
theorem C5_counter_steer_clamp:
  assumes "XT_blend env vehicle step s = (sb, res)"
    and "crvcode = CalcCurvatureCode (m_pcurvature sb) (m_R_threshold sb)
                     (GetYaxis (GetRot (GetFrame_REF_to_abs vehicle))) (m_pnormal sb)"
  shows "snd (XT_Advance env vehicle step s) = m_res (fst (XT_Advance env vehicle step s))
       \<and> (crvcode = 1 \<longrightarrow> snd (XT_Advance env vehicle step s) = ChClamp res 0 1
             \<and> 0 \<le> snd (XT_Advance env vehicle step s) \<and> snd (XT_Advance env vehicle step s) \<le> 1)
       \<and> (crvcode = - 1 \<longrightarrow> snd (XT_Advance env vehicle step s) = ChClamp res (- 1) 0
             \<and> - 1 \<le> snd (XT_Advance env vehicle step s) \<and> snd (XT_Advance env vehicle step s) \<le> 0)
       \<and> (crvcode = 0 \<longrightarrow> snd (XT_Advance env vehicle step s) = ChClamp res (- 1) 1
             \<and> - 1 \<le> snd (XT_Advance env vehicle step s) \<and> snd (XT_Advance env vehicle step s) \<le> 1)
       \<and> (crvcode = 1 \<or> crvcode = - 1 \<or> crvcode = 0)
       \<and> (m_pcurvature sb \<le> 1 / m_R_threshold sb \<longrightarrow> crvcode = 0)"
proof -
  have out: "snd (XT_Advance env vehicle step s) = counter_steer crvcode res"
    using assms by (simp add: XT_Advance_out XT_Advance_res)
  have a: "snd (XT_Advance env vehicle step s) = m_res (fst (XT_Advance env vehicle step s))"
    by (rule XT_Advance_out)
  have b: "crvcode = 1 \<or> crvcode = - 1 \<or> crvcode = 0"
    unfolding assms(2) by (rule CalcCurvatureCode_cases)
  have c: "m_pcurvature sb \<le> 1 / m_R_threshold sb \<longrightarrow> crvcode = 0"
    unfolding assms(2) by (simp add: CalcCurvatureCode_straight)
  from a b c show ?thesis
    unfolding out by (simp add: counter_steer_def ChClamp_def)
qed
lemma Normalize_neg_unit_y: "Normalize (Vec 0 (- 1) 0) = Vec 0 (- 1) 0"
  by (simp add: Normalize_def Vscale_def DBL_MIN_def)

lemma ex_XT_blend_left:
  "snd (XT_blend (ex_env (Vec 5 (- 2) 0) 1) (ex_vehicle (Vec 0 0 0) 1 (Vec 1 0 0)) (1/100) ex_XT) = - 2"
  by (simp add: XT_blend_def Let_def XT_CalcTargetLocation_def collect_row_def lateral_error_def
      XT_CalcHeadingError_def CalcAckermannAngle_def ex_XT_fields ex_env_def ex_vehicle_def ex_frame_def
      vec_defs normalize_simps ChSignum_def split: prod.splits)

lemma ex_XT_blend_straight:
  "snd (XT_blend (ex_env (Vec 5 2 0) 0) (ex_vehicle (Vec 0 0 0) 1 (Vec 1 0 0)) (1/100) ex_XT) = 2"
  by (simp add: XT_blend_def Let_def XT_CalcTargetLocation_def collect_row_def lateral_error_def
      XT_CalcHeadingError_def CalcAckermannAngle_def ex_XT_fields ex_env_def ex_vehicle_def ex_frame_def
      vec_defs normalize_simps ChSignum_def split: prod.splits)

lemma ex_XT_blend_right:
  "snd (XT_blend (ex_env_right (Vec 5 2 0) 1) (ex_vehicle (Vec 0 0 0) 1 (Vec 1 0 0)) (1/100) ex_XT) = 2"
  by (simp add: XT_blend_def Let_def XT_CalcTargetLocation_def collect_row_def lateral_error_def
      XT_CalcHeadingError_def CalcAckermannAngle_def ex_XT_fields ex_env_right_def ex_env_def
      ex_vehicle_def ex_frame_def vec_defs normalize_simps ChSignum_def split: prod.splits)

lemma ex_codes:
  "CalcCurvatureCode 1 100000 (Vec 0 1 0) (Vec 0 1 0) = 1"
  "CalcCurvatureCode 1 100000 (Vec 0 1 0) (Vec 0 (- 1) 0) = - 1"
  "CalcCurvatureCode 0 100000 (Vec 0 1 0) (Vec 0 1 0) = 0"
  by (simp_all add: CalcCurvatureCode_def Let_def vec_defs normalize_simps Normalize_neg_unit_y)

text \<open>
  The witness of C5, one call for each code: a left bend with the target two units to
  the right (sum -2, clamped to 0), a right bend with the target two units to the left
  (sum 2, clamped to 0), a straight path with the same target (sum 2, clamped to 1).
\<close>
theorem C5_counter_steer_clamp_witness:
  "snd (XT_blend (ex_env (Vec 5 (- 2) 0) 1) (ex_vehicle (Vec 0 0 0) 1 (Vec 1 0 0)) (1/100) ex_XT) = - 2
   \<and> snd (XT_Advance (ex_env (Vec 5 (- 2) 0) 1) (ex_vehicle (Vec 0 0 0) 1 (Vec 1 0 0)) (1/100) ex_XT) = 0
   \<and> snd (XT_blend (ex_env_right (Vec 5 2 0) 1) (ex_vehicle (Vec 0 0 0) 1 (Vec 1 0 0)) (1/100) ex_XT) = 2
   \<and> snd (XT_Advance (ex_env_right (Vec 5 2 0) 1) (ex_vehicle (Vec 0 0 0) 1 (Vec 1 0 0)) (1/100) ex_XT) = 0
   \<and> snd (XT_blend (ex_env (Vec 5 2 0) 0) (ex_vehicle (Vec 0 0 0) 1 (Vec 1 0 0)) (1/100) ex_XT) = 2
   \<and> snd (XT_Advance (ex_env (Vec 5 2 0) 0) (ex_vehicle (Vec 0 0 0) 1 (Vec 1 0 0)) (1/100) ex_XT) = 1"
proof -
  let ?v = "ex_vehicle (Vec 0 0 0) 1 (Vec 1 0 0)"
  let ?left = "ex_env (Vec 5 (- 2) 0) 1" and ?right = "ex_env_right (Vec 5 2 0) 1"
    and ?straight = "ex_env (Vec 5 2 0) 0"
  have left: "CalcCurvatureCode (m_pcurvature (fst (XT_blend ?left ?v (1/100) ex_XT)))
                (m_R_threshold (fst (XT_blend ?left ?v (1/100) ex_XT)))
                (GetYaxis (GetRot (GetFrame_REF_to_abs ?v)))
                (m_pnormal (fst (XT_blend ?left ?v (1/100) ex_XT))) = 1"
    by (simp add: XT_blend_frame ex_XT_fields ex_env_def ex_vehicle_def ex_frame_def ex_codes)
  have right: "CalcCurvatureCode (m_pcurvature (fst (XT_blend ?right ?v (1/100) ex_XT)))
                (m_R_threshold (fst (XT_blend ?right ?v (1/100) ex_XT)))
                (GetYaxis (GetRot (GetFrame_REF_to_abs ?v)))
                (m_pnormal (fst (XT_blend ?right ?v (1/100) ex_XT))) = - 1"
    by (simp add: XT_blend_frame ex_XT_fields ex_env_right_def ex_env_def ex_vehicle_def
          ex_frame_def ex_codes)
  have straight: "CalcCurvatureCode (m_pcurvature (fst (XT_blend ?straight ?v (1/100) ex_XT)))
                (m_R_threshold (fst (XT_blend ?straight ?v (1/100) ex_XT)))
                (GetYaxis (GetRot (GetFrame_REF_to_abs ?v)))
                (m_pnormal (fst (XT_blend ?straight ?v (1/100) ex_XT))) = 0"
    by (simp add: XT_blend_frame ex_XT_fields ex_env_def ex_vehicle_def ex_frame_def ex_codes)
  have l: "snd (XT_Advance ?left ?v (1/100) ex_XT) = 0"
    using C5_counter_steer_clamp [OF prod.collapse [symmetric] left [symmetric]]
    by (simp add: ex_XT_blend_left ChClamp_def)
  have r: "snd (XT_Advance ?right ?v (1/100) ex_XT) = 0"
    using C5_counter_steer_clamp [OF prod.collapse [symmetric] right [symmetric]]
    by (simp add: ex_XT_blend_right ChClamp_def)
  have s: "snd (XT_Advance ?straight ?v (1/100) ex_XT) = 1"
    using C5_counter_steer_clamp [OF prod.collapse [symmetric] straight [symmetric]]
    by (simp add: ex_XT_blend_straight ChClamp_def)
  from l r s show ?thesis
    by (simp add: ex_XT_blend_left ex_XT_blend_right ex_XT_blend_straight)
qed

subsection \<open>The stored output of the XT controller\<close>

lemma ex_XT_wide_fields:
  "m_dist ex_XT_wide = 5 \<and> m_Wy ex_XT_wide = 1 \<and> m_Wh ex_XT_wide = 1 \<and> m_Wa ex_XT_wide = 1
   \<and> m_res ex_XT_wide = 0 \<and> m_R_threshold ex_XT_wide = 100000
   \<and> m_max_wheel_turn_angle ex_XT_wide = pi
   \<and> m_collect ex_XT_wide = False \<and> m_filters_initialized ex_XT_wide = False"
  by (simp add: ex_XT_wide_def ChPathSteeringControllerXT_ctor_def ChSteeringController_ctor_def
        SetGains_def Let_def)

lemma ex_XT_wide_blend:
  "snd (XT_blend (ex_env (Vec 5 (1/2) 0) 0) (ex_vehicle (Vec 0 0 0) 1 (Vec 1 0 0)) (1/100) ex_XT_wide)
     = 1/2"
  by (simp add: XT_blend_def Let_def XT_CalcTargetLocation_def collect_row_def lateral_error_def
      XT_CalcHeadingError_def CalcAckermannAngle_def ex_XT_wide_fields ex_env_def ex_vehicle_def
      ex_frame_def vec_defs normalize_simps ChSignum_def split: prod.splits)

lemma ex_XT_wide_res:
  "m_res (fst (XT_Advance (ex_env (Vec 5 (1/2) 0) 0) (ex_vehicle (Vec 0 0 0) 1 (Vec 1 0 0)) (1/100)
                 ex_XT_wide)) = 1/2"
proof -
  let ?env = "ex_env (Vec 5 (1/2) 0) 0" and ?v = "ex_vehicle (Vec 0 0 0) 1 (Vec 1 0 0)"
  have "CalcCurvatureCode (m_pcurvature (fst (XT_blend ?env ?v (1/100) ex_XT_wide)))
          (m_R_threshold (fst (XT_blend ?env ?v (1/100) ex_XT_wide)))
          (GetYaxis (GetRot (GetFrame_REF_to_abs ?v)))
          (m_pnormal (fst (XT_blend ?env ?v (1/100) ex_XT_wide))) = 0"
    by (simp add: XT_blend_frame ex_XT_wide_fields ex_env_def CalcCurvatureCode_straight)
  then show ?thesis
    by (simp add: XT_Advance_res ex_XT_wide_blend counter_steer_def ChClamp_def)
qed

lemma sin_scaled_bound:
  fixes r a :: real
  assumes "- 1 \<le> r" "r \<le> 1" "0 \<le> a" "a \<le> pi / 2"
  shows "\<bar>sin (r * a)\<bar> \<le> sin a"
proof -
  have up: "r * a \<le> a"
  proof -
    have "r * a \<le> 1 * a" using assms(2,3) by (intro mult_right_mono) simp_all
    then show ?thesis by simp
  qed
  have lo: "- a \<le> r * a"
  proof -
    have "(- 1) * a \<le> r * a" using assms(1,3) by (intro mult_right_mono) simp_all
    then show ?thesis by simp
  qed
  have "sin (r * a) \<le> sin a"
    using lo up assms(3,4) by (intro sin_monotone_2pi_le) linarith+
  moreover have "sin (- a) \<le> sin (r * a)"
    using lo up assms(3,4) by (intro sin_monotone_2pi_le) linarith+
  ultimately show ?thesis by (simp add: abs_le_iff)
qed

lemma XT_ctor_res:
  "m_res (ChPathSteeringControllerXT_ctor env tr0 a mem) = 0
   \<and> 0 < m_max_wheel_turn_angle (ChPathSteeringControllerXT_ctor env tr0 a mem)"
  by (simp add: ChPathSteeringControllerXT_ctor_def Let_def CH_C_DEG_TO_RAD_def)

text \<open>
  C10, as the code has it.  \<^verbatim>\<open>m_res\<close> is 0 after construction and the maximum wheel
  angle is positive then.  What \<^verbatim>\<open>Advance\<close> stores in \<^verbatim>\<open>m_res\<close> is the clamp of its
  weighted sum: a number in \<open>[-1, 1]\<close> whenever the weighted sum is a number (it is one
  in exact arithmetic, where the real-valued \<^verbatim>\<open>Advance\<close> gives the value).  \<^verbatim>\<open>Advance\<close>
  leaves the maximum wheel angle alone.  With \<^verbatim>\<open>m_res\<close> in \<open>[-1, 1]\<close>, the Ackermann
  channel \<open>sin (m_res * max_wheel_turn_angle)\<close> is bounded in magnitude by
  \<open>sin max_wheel_turn_angle\<close> when that angle is at most \<open>pi / 2\<close>.
\<close>
theorem C10_xt_output_state_bounds:
  "m_res (ChPathSteeringControllerXT_ctor env tr0 a mem) = 0
   \<and> 0 < m_max_wheel_turn_angle (ChPathSteeringControllerXT_ctor env tr0 a mem)
   \<and> Number (m_res (fst (XT_Advance env vehicle step s)))
       = XT_return_d env vehicle step s (Number (snd (XT_blend env vehicle step s)))
   \<and> (\<forall>x. \<exists>y. XT_return_d env vehicle step s (Number x) = Number y \<and> - 1 \<le> y \<and> y \<le> 1)
   \<and> m_max_wheel_turn_angle (fst (XT_Advance env vehicle step s)) = m_max_wheel_turn_angle s
   \<and> (- 1 \<le> m_res s \<and> m_res s \<le> 1
        \<and> 0 \<le> m_max_wheel_turn_angle s \<and> m_max_wheel_turn_angle s \<le> pi / 2
       \<longrightarrow> \<bar>CalcAckermannAngle s\<bar> \<le> sin (m_max_wheel_turn_angle s))"
proof -
  have r: "Number (m_res (fst (XT_Advance env vehicle step s)))
       = XT_return_d env vehicle step s (Number (snd (XT_blend env vehicle step s)))"
    by (simp add: XT_return_d_blend)
  have q: "\<forall>x. \<exists>y. XT_return_d env vehicle step s (Number x) = Number y \<and> - 1 \<le> y \<and> y \<le> 1"
    using XT_return_d_range [of env vehicle step s] by blast
  have b: "- 1 \<le> m_res s \<and> m_res s \<le> 1
        \<and> 0 \<le> m_max_wheel_turn_angle s \<and> m_max_wheel_turn_angle s \<le> pi / 2
       \<longrightarrow> \<bar>CalcAckermannAngle s\<bar> \<le> sin (m_max_wheel_turn_angle s)"
    by (simp add: CalcAckermannAngle_def sin_scaled_bound)
  from r q b XT_ctor_res [of env tr0 a mem] XT_Advance_frame [of env vehicle step s]
  show ?thesis by (intro conjI) blast+
qed

text \<open>
  The witness of C10: the state after one call on the controller with the default
  maximum wheel angle of 25 degrees, a call in which every double is a number.
\<close>
theorem C10_xt_output_state_bounds_witness:
  "- 1 \<le> m_res (fst (XT_Advance (ex_env (Vec 5 2 0) 0) (ex_vehicle (Vec 0 0 0) 1 (Vec 1 0 0)) (1/100) ex_XT))
   \<and> m_res (fst (XT_Advance (ex_env (Vec 5 2 0) 0) (ex_vehicle (Vec 0 0 0) 1 (Vec 1 0 0)) (1/100) ex_XT)) \<le> 1
   \<and> 0 \<le> m_max_wheel_turn_angle (fst (XT_Advance (ex_env (Vec 5 2 0) 0) (ex_vehicle (Vec 0 0 0) 1 (Vec 1 0 0)) (1/100) ex_XT))
   \<and> m_max_wheel_turn_angle (fst (XT_Advance (ex_env (Vec 5 2 0) 0) (ex_vehicle (Vec 0 0 0) 1 (Vec 1 0 0)) (1/100) ex_XT)) \<le> pi / 2
   \<and> \<bar>CalcAckermannAngle (fst (XT_Advance (ex_env (Vec 5 2 0) 0) (ex_vehicle (Vec 0 0 0) 1 (Vec 1 0 0)) (1/100) ex_XT))\<bar>
       \<le> sin (m_max_wheel_turn_angle (fst (XT_Advance (ex_env (Vec 5 2 0) 0) (ex_vehicle (Vec 0 0 0) 1 (Vec 1 0 0)) (1/100) ex_XT)))"
proof -
  let ?env = "ex_env (Vec 5 2 0) 0" and ?v = "ex_vehicle (Vec 0 0 0) 1 (Vec 1 0 0)"
  let ?s = "fst (XT_Advance ?env ?v (1/100) ex_XT)"
  note a = C10_xt_output_state_bounds [where env = ?env and vehicle = ?v and step = "1/100" and s = ex_XT]
  note b = C10_xt_output_state_bounds [where s = ?s]
  have ang: "m_max_wheel_turn_angle ?s = 25 * pi / 180"
    by (simp add: XT_Advance_frame ex_XT_fields CH_C_DEG_TO_RAD_def)
  have rng: "0 \<le> m_max_wheel_turn_angle ?s \<and> m_max_wheel_turn_angle ?s \<le> pi / 2"
    unfolding ang by simp
  from a have e: "Number (m_res ?s)
       = XT_return_d ?env ?v (1/100) ex_XT (Number (snd (XT_blend ?env ?v (1/100) ex_XT)))"
    and q: "\<forall>x. \<exists>y. XT_return_d ?env ?v (1/100) ex_XT (Number x) = Number y \<and> - 1 \<le> y \<and> y \<le> 1"
    by blast+
  from q obtain y where "XT_return_d ?env ?v (1/100) ex_XT (Number (snd (XT_blend ?env ?v (1/100) ex_XT)))
        = Number y \<and> - 1 \<le> y \<and> y \<le> 1" by blast
  with e have res: "- 1 \<le> m_res ?s \<and> m_res ?s \<le> 1" by simp
  from b res rng have "\<bar>CalcAckermannAngle ?s\<bar> \<le> sin (m_max_wheel_turn_angle ?s)" by blast
  with res rng show ?thesis by blast
qed

text \<open>
  The counterexample to C10 as stated: constructed with a maximum wheel angle of \<open>pi\<close>
  (any positive angle is taken), one call with the target half a unit to the left leaves
  \<^verbatim>\<open>m_res = 1/2\<close>; the Ackermann channel of the next step is \<open>sin (pi / 2) = 1\<close>, above
  \<open>sin pi = 0\<close>.
\<close>
theorem C10_ackermann_bound_counterexample:
  "m_max_wheel_turn_angle ex_XT_wide = pi
   \<and> m_res (fst (XT_Advance (ex_env (Vec 5 (1/2) 0) 0) (ex_vehicle (Vec 0 0 0) 1 (Vec 1 0 0)) (1/100)
                 ex_XT_wide)) = 1/2
   \<and> CalcAckermannAngle (fst (XT_Advance (ex_env (Vec 5 (1/2) 0) 0)
         (ex_vehicle (Vec 0 0 0) 1 (Vec 1 0 0)) (1/100) ex_XT_wide)) = 1
   \<and> \<not> \<bar>CalcAckermannAngle (fst (XT_Advance (ex_env (Vec 5 (1/2) 0) 0)
         (ex_vehicle (Vec 0 0 0) 1 (Vec 1 0 0)) (1/100) ex_XT_wide))\<bar>
       \<le> sin (m_max_wheel_turn_angle (fst (XT_Advance (ex_env (Vec 5 (1/2) 0) 0)
         (ex_vehicle (Vec 0 0 0) 1 (Vec 1 0 0)) (1/100) ex_XT_wide)))"
  by (simp add: CalcAckermannAngle_def ex_XT_wide_res XT_Advance_frame ex_XT_wide_fields)


subsection \<open>The dead zone of the Stanley controller\<close>


















subsection \<open>The sentinel of the SR controller\<close>

lemma SR_finish_sentinel: "m_sentinel (fst (SR_finish vehicle s idx Pt t)) = m_sentinel s"
  by (simp add: SR_finish_def Let_def collect_row_def)

lemma SR_Advance_sentinel:
  assumes "SR_Advance vehicle step s = Some (Inr (s', out))"
  shows "m_sentinel s' = SR_sentinel vehicle s"
proof -
  from SR_Advance_finish [OF assms] obtain idx Pt t
    where "SR_finish vehicle (s\<lparr>m_sentinel := SR_sentinel vehicle s\<rparr>) idx Pt t = (s', out)"
    by blast
  then show ?thesis
    using SR_finish_sentinel [of vehicle "s\<lparr>m_sentinel := SR_sentinel vehicle s\<rparr>" idx Pt t]
    by simp
qed

lemma SR_sentinel_straight:
  assumes "m_delta s = 0"
  shows "SR_sentinel vehicle s =
           Vadd (frame_GetPos (GetFrame_REF_to_abs vehicle))
                (Vscale (max (GetSpeed vehicle) (m_umin s) * m_Tp s)
                        (GetXaxis (GetRot (GetFrame_REF_to_abs vehicle))))"
  using assms by (simp add: SR_sentinel_def Let_def vec_defs max_def)

text \<open>
  C7, as the code has it.  When the stored steering angle is exactly 0 (whatever
  \<^verbatim>\<open>m_Kug\<close> is), the sentinel is the origin of the chassis reference frame moved along the
  chassis X axis by \<open>max speed m_umin * m_Tp\<close>: by \<open>speed * m_Tp\<close> when the speed is at
  least \<^verbatim>\<open>m_umin\<close>.  It is what \<^verbatim>\<open>Advance\<close> leaves in \<^verbatim>\<open>m_sentinel\<close> when it returns.
\<close>
theorem C7_sr_straight_sentinel:
  assumes "m_delta s = 0"
  shows "SR_sentinel vehicle s =
           Vadd (frame_GetPos (GetFrame_REF_to_abs vehicle))
                (Vscale (max (GetSpeed vehicle) (m_umin s) * m_Tp s)
                        (GetXaxis (GetRot (GetFrame_REF_to_abs vehicle))))
       \<and> (m_umin s \<le> GetSpeed vehicle \<longrightarrow>
            SR_sentinel vehicle s =
              Vadd (frame_GetPos (GetFrame_REF_to_abs vehicle))
                   (Vscale (GetSpeed vehicle * m_Tp s)
                           (GetXaxis (GetRot (GetFrame_REF_to_abs vehicle)))))
       \<and> (\<forall>s' out. SR_Advance vehicle step s = Some (Inr (s', out)) \<longrightarrow>
            m_sentinel s' = SR_sentinel vehicle s)"
  using SR_sentinel_straight [OF assms, of vehicle] SR_Advance_sentinel [of vehicle step s]
  by (auto simp add: max_def)

text \<open>The witness of C7: the example controller, the vehicle at speed 3, above the minimum 2.\<close>
theorem C7_sr_straight_sentinel_witness:
  "m_delta ex_SR = 0 \<and> m_umin ex_SR \<le> GetSpeed (ex_vehicle (Vec 0 1 0) 3 (Vec 3 0 0))
   \<and> SR_sentinel (ex_vehicle (Vec 0 1 0) 3 (Vec 3 0 0)) ex_SR = Vec (3/2) 1 0
   \<and> (\<exists>s' out. SR_Advance (ex_vehicle (Vec 0 1 0) 3 (Vec 3 0 0)) (1/100) ex_SR = Some (Inr (s', out))
                \<and> m_sentinel s' = Vec (3/2) 1 0)"
proof -
  let ?v = "ex_vehicle (Vec 0 1 0) 3 (Vec 3 0 0)"
  have d: "m_delta ex_SR = 0" by (simp add: ex_SR_fields)
  have u: "m_umin ex_SR \<le> GetSpeed ?v" by (simp add: ex_SR_fields ex_vehicle_def)
  note c7 = C7_sr_straight_sentinel [OF d, where vehicle = ?v and step = "1/100"]
  from c7 u have "SR_sentinel ?v ex_SR =
              Vadd (frame_GetPos (GetFrame_REF_to_abs ?v))
                   (Vscale (GetSpeed ?v * m_Tp ex_SR) (GetXaxis (GetRot (GetFrame_REF_to_abs ?v))))"
    by blast
  then have sen: "SR_sentinel ?v ex_SR = Vec (3/2) 1 0"
    by (simp add: ex_SR_fields ex_vehicle_def ex_frame_def vec_defs)
  obtain s' out where adv: "SR_Advance ?v (1/100) ex_SR = Some (Inr (s', out))"
    using SR_Advance_open_returns [of ex_SR ?v "1/100"] ex_SR_fields by blast
  with c7 sen have "m_sentinel s' = Vec (3/2) 1 0" by simp
  with d u sen adv show ?thesis by blast
qed

text \<open>
  The counterexample to C7 as stated: the vehicle at the origin at speed 1, below the
  minimum speed 2 of the controller, preview time 1/2.  The sentinel is \<open>(1, 0, 0)\<close>, the
  minimum speed times the preview time ahead, not \<open>(1/2, 0, 0)\<close>.
\<close>
theorem C7_sentinel_below_minimum_speed_counterexample:
  "m_delta ex_SR = 0
   \<and> SR_sentinel (ex_vehicle (Vec 0 0 0) 1 (Vec 1 0 0)) ex_SR = Vec 1 0 0
   \<and> Vadd (frame_GetPos (GetFrame_REF_to_abs (ex_vehicle (Vec 0 0 0) 1 (Vec 1 0 0))))
          (Vscale (GetSpeed (ex_vehicle (Vec 0 0 0) 1 (Vec 1 0 0)) * m_Tp ex_SR)
                  (GetXaxis (GetRot (GetFrame_REF_to_abs (ex_vehicle (Vec 0 0 0) 1 (Vec 1 0 0))))))
       = Vec (1/2) 0 0
   \<and> SR_sentinel (ex_vehicle (Vec 0 0 0) 1 (Vec 1 0 0)) ex_SR
       \<noteq> Vadd (frame_GetPos (GetFrame_REF_to_abs (ex_vehicle (Vec 0 0 0) 1 (Vec 1 0 0))))
          (Vscale (GetSpeed (ex_vehicle (Vec 0 0 0) 1 (Vec 1 0 0)) * m_Tp ex_SR)
                  (GetXaxis (GetRot (GetFrame_REF_to_abs (ex_vehicle (Vec 0 0 0) 1 (Vec 1 0 0))))))
   \<and> map_option (map_sum id (m_sentinel \<circ> fst))
         (SR_Advance (ex_vehicle (Vec 0 0 0) 1 (Vec 1 0 0)) (1/100) ex_SR)
       = Some (Inr (Vec 1 0 0))"
proof -
  let ?v = "ex_vehicle (Vec 0 0 0) 1 (Vec 1 0 0)"
  have d: "m_delta ex_SR = 0" by (simp add: ex_SR_fields)
  have sen: "SR_sentinel ?v ex_SR = Vec 1 0 0"
    by (simp add: SR_sentinel_straight [OF d] ex_SR_fields ex_vehicle_def ex_frame_def vec_defs)
  have line: "Vadd (frame_GetPos (GetFrame_REF_to_abs ?v))
          (Vscale (GetSpeed ?v * m_Tp ex_SR) (GetXaxis (GetRot (GetFrame_REF_to_abs ?v))))
       = Vec (1/2) 0 0"
    by (simp add: ex_SR_fields ex_vehicle_def ex_frame_def vec_defs)
  have neq: "SR_sentinel ?v ex_SR
       \<noteq> Vadd (frame_GetPos (GetFrame_REF_to_abs ?v))
          (Vscale (GetSpeed ?v * m_Tp ex_SR) (GetXaxis (GetRot (GetFrame_REF_to_abs ?v))))"
    unfolding sen line by simp
  obtain s' out where adv: "SR_Advance ?v (1/100) ex_SR = Some (Inr (s', out))"
    using SR_Advance_open_returns [of ex_SR ?v "1/100"] ex_SR_fields by blast
  then have "m_sentinel s' = Vec 1 0 0" using SR_Advance_sentinel sen by simp
  with adv have run: "map_option (map_sum id (m_sentinel \<circ> fst)) (SR_Advance ?v (1/100) ex_SR)
       = Some (Inr (Vec 1 0 0))" by simp
  from d sen line neq run show ?thesis by blast
qed

subsection \<open>Reset of the SR controller\<close>

lemma SR_finish_zero_gain:
  assumes "m_Klat s = 0" "\<bar>m_delta s\<bar> \<le> m_delta_max s"
  shows "m_delta (fst (SR_finish vehicle s idx Pt t)) = m_delta s
       \<and> m_Klat (fst (SR_finish vehicle s idx Pt t)) = 0
       \<and> m_Kug (fst (SR_finish vehicle s idx Pt t)) = m_Kug s
       \<and> m_delta_max (fst (SR_finish vehicle s idx Pt t)) = m_delta_max s"
  using assms by (auto simp add: SR_finish_def Let_def collect_row_def ChClamp_def abs_le_iff)

lemma SR_Advance_zero_gain:
  assumes "m_Klat s = 0" "\<bar>m_delta s\<bar> \<le> m_delta_max s"
    and "SR_Advance vehicle step s = Some (Inr (s', out))"
  shows "m_delta s' = m_delta s \<and> m_Klat s' = 0 \<and> m_Kug s' = m_Kug s
       \<and> m_delta_max s' = m_delta_max s"
proof -
  let ?s1 = "s\<lparr>m_sentinel := SR_sentinel vehicle s\<rparr>"
  from SR_Advance_finish [OF assms(3)] obtain idx Pt t
    where fin: "SR_finish vehicle ?s1 idx Pt t = (s', out)" by blast
  have "m_Klat ?s1 = 0" "\<bar>m_delta ?s1\<bar> \<le> m_delta_max ?s1" using assms(1,2) by simp_all
  from SR_finish_zero_gain [OF this, of vehicle idx Pt t] fin show ?thesis by simp
qed

lemma SR_run_zero_gain:
  assumes "m_Klat s = 0" "\<bar>m_delta s\<bar> \<le> m_delta_max s"
    and "SR_run calls s = Some (Inr s')"
  shows "m_delta s' = m_delta s \<and> m_Klat s' = 0 \<and> m_Kug s' = m_Kug s"
  using assms
proof (induction calls arbitrary: s)
  case Nil
  then show ?case by simp
next
  case (Cons c calls)
  obtain vehicle step where c: "c = (vehicle, step)" by (cases c)
  from Cons.prems(3) c obtain s1 out
    where adv: "SR_Advance vehicle step s = Some (Inr (s1, out))"
      and run: "SR_run calls s1 = Some (Inr s')"
    by (auto split: option.splits sum.splits prod.splits)
  from SR_Advance_zero_gain [OF Cons.prems(1,2) adv]
  have s1: "m_delta s1 = m_delta s" "m_Klat s1 = 0" "m_Kug s1 = m_Kug s"
    "m_delta_max s1 = m_delta_max s" by simp_all
  with Cons.prems(2) have "\<bar>m_delta s1\<bar> \<le> m_delta_max s1" by simp
  from Cons.IH [OF s1(2) this run] s1 show ?case by simp
qed

lemma SR_Reset_fields:
  "m_Klat (SR_Reset vehicle s) = 0 \<and> m_Kug (SR_Reset vehicle s) = 0
   \<and> m_err (SR_Reset vehicle s) = 0 \<and> m_erri (SR_Reset vehicle s) = 0
   \<and> m_errd (SR_Reset vehicle s) = 0
   \<and> m_sentinel (SR_Reset vehicle s)
       = TransformPointLocalToParent (GetFrame_REF_to_abs vehicle) (Vscale (m_dist s) Forward)
   \<and> m_delta (SR_Reset vehicle s) = m_delta s
   \<and> m_delta_max (SR_Reset vehicle s) = m_delta_max s
   \<and> m_isClosedPath (SR_Reset vehicle s) = m_isClosedPath s
   \<and> table_ok (SR_Reset vehicle s) = table_ok s"
  by (simp add: SR_Reset_def Reset_def table_ok_def)

text \<open>
  The constructor leaves the steering angle at 0, so within a maximum that is not
  negative; \<open>SR_finish_delta\<close> shows that \<^verbatim>\<open>Advance\<close> keeps it there.
\<close>
lemma SR_ctor_delta:
  assumes "ChPathSteeringControllerSR_ctor path isClosedPath a L mem = Inr s"
  shows "m_delta s = 0 \<and> m_delta_max s = a \<and> m_Klat s = 0 \<and> m_Kug s = 0"
  using CalcPathPoints_frame [OF assms [unfolded ChPathSteeringControllerSR_ctor_def]]
  by simp

text \<open>
  C9.  For an SR controller whose steering angle is within its maximum (as the
  constructor leaves it and every \<^verbatim>\<open>Advance\<close> keeps it): \<^verbatim>\<open>Reset\<close> zeroes \<^verbatim>\<open>m_Klat\<close> and
  \<^verbatim>\<open>m_Kug\<close>, beside the sentinel and the error states of the base class, and leaves the
  steering angle alone; after any number of \<^verbatim>\<open>Advance\<close> calls that follow, the steering
  angle is still what it was and both gains are still 0.
\<close>
theorem C9_sr_reset_discards_gains:
  assumes "\<bar>m_delta s\<bar> \<le> m_delta_max s"
  shows "m_Klat (SR_Reset vehicle s) = 0 \<and> m_Kug (SR_Reset vehicle s) = 0
       \<and> m_err (SR_Reset vehicle s) = 0 \<and> m_erri (SR_Reset vehicle s) = 0
       \<and> m_errd (SR_Reset vehicle s) = 0
       \<and> m_sentinel (SR_Reset vehicle s)
           = TransformPointLocalToParent (GetFrame_REF_to_abs vehicle) (Vscale (m_dist s) Forward)
       \<and> m_delta (SR_Reset vehicle s) = m_delta s
       \<and> (\<forall>calls s'. SR_run calls (SR_Reset vehicle s) = Some (Inr s') \<longrightarrow>
             m_delta s' = m_delta s \<and> m_Klat s' = 0 \<and> m_Kug s' = 0)"
proof -
  have inv: "m_Klat (SR_Reset vehicle s) = 0"
    "\<bar>m_delta (SR_Reset vehicle s)\<bar> \<le> m_delta_max (SR_Reset vehicle s)"
    using assms by (simp_all add: SR_Reset_fields)
  have "\<forall>calls s'. SR_run calls (SR_Reset vehicle s) = Some (Inr s') \<longrightarrow>
             m_delta s' = m_delta s \<and> m_Klat s' = 0 \<and> m_Kug s' = 0"
    using SR_run_zero_gain [OF inv] by (simp add: SR_Reset_fields)
  then show ?thesis using SR_Reset_fields [of vehicle s] by simp
qed

lemma SR_run_open_returns:
  assumes "\<not> m_isClosedPath s" "table_ok s"
  shows "\<exists>s'. SR_run calls s = Some (Inr s')"
  using assms
proof (induction calls arbitrary: s)
  case Nil
  then show ?case by simp
next
  case (Cons c calls)
  obtain vehicle step where c: "c = (vehicle, step)" by (cases c)
  from SR_Advance_open_returns [OF Cons.prems, of vehicle step] obtain s1 out
    where adv: "SR_Advance vehicle step s = Some (Inr (s1, out))"
      and ok: "table_ok s1" "\<not> m_isClosedPath s1" by blast
  from Cons.IH [OF ok(2,1)] obtain s' where "SR_run calls s1 = Some (Inr s')" by blast
  with adv c show ?case by simp
qed

lemma ex_SR_first_call:
  "\<exists>s1. SR_Advance (ex_vehicle (Vec 0 1 0) 3 (Vec 3 0 0)) (1/100) ex_SR = Some (Inr (s1, - 1))
        \<and> m_delta s1 = - 1/2 \<and> m_delta_max s1 = 1/2 \<and> m_Klat s1 = 1
        \<and> \<not> m_isClosedPath s1 \<and> table_ok s1"
  by (simp add: SR_Advance_def SR_sentinel_def segment_at_def SR_finish_def collect_row_def
        ex_SR_eq ex_storage_SR_def ex_path_def ex_vehicle_def ex_frame_def vec_defs Let_def
        ChClamp_def table_ok_def)

text \<open>
  The witness of C9: the example controller with \<^verbatim>\<open>m_Klat = 1\<close> steers to -1/2 in a first
  call; after \<^verbatim>\<open>Reset\<close> two more calls, with lateral errors -1 and -2, leave -1/2.
\<close>
theorem C9_sr_reset_discards_gains_witness:
  "\<exists>s1. SR_Advance (ex_vehicle (Vec 0 1 0) 3 (Vec 3 0 0)) (1/100) ex_SR = Some (Inr (s1, - 1))
        \<and> m_Klat s1 = 1 \<and> m_delta s1 = - 1/2 \<and> \<bar>m_delta s1\<bar> \<le> m_delta_max s1
        \<and> m_Klat (SR_Reset (ex_vehicle (Vec 0 1 0) 3 (Vec 3 0 0)) s1) = 0
        \<and> (\<exists>s'. SR_run [(ex_vehicle (Vec 0 1 0) 3 (Vec 3 0 0), 1/100),
                         (ex_vehicle (Vec 0 2 0) 3 (Vec 3 0 0), 1/100)]
                    (SR_Reset (ex_vehicle (Vec 0 1 0) 3 (Vec 3 0 0)) s1) = Some (Inr s')
                \<and> m_delta s' = - 1/2 \<and> m_Klat s' = 0)"
proof -
  let ?v = "ex_vehicle (Vec 0 1 0) 3 (Vec 3 0 0)"
  let ?calls = "[(?v, 1/100), (ex_vehicle (Vec 0 2 0) 3 (Vec 3 0 0), 1/100)]"
  from ex_SR_first_call obtain s1
    where adv: "SR_Advance ?v (1/100) ex_SR = Some (Inr (s1, - 1))"
      and s1: "m_delta s1 = - 1/2" "m_delta_max s1 = 1/2" "m_Klat s1 = 1"
        "\<not> m_isClosedPath s1" "table_ok s1" by blast
  have inv: "\<bar>m_delta s1\<bar> \<le> m_delta_max s1" using s1 by simp
  note c9 = C9_sr_reset_discards_gains [OF inv, of ?v]
  have "\<not> m_isClosedPath (SR_Reset ?v s1)" "table_ok (SR_Reset ?v s1)"
    using s1 by (simp_all add: SR_Reset_fields)
  from SR_run_open_returns [OF this, of ?calls] obtain s'
    where run: "SR_run ?calls (SR_Reset ?v s1) = Some (Inr s')" by blast
  with c9 have "m_delta s' = m_delta s1 \<and> m_Klat s' = 0" by blast
  with run s1 have "\<exists>s'. SR_run ?calls (SR_Reset ?v s1) = Some (Inr s')
                \<and> m_delta s' = - 1/2 \<and> m_Klat s' = 0" by auto
  moreover from c9 have "m_Klat (SR_Reset ?v s1) = 0" by blast
  ultimately show ?thesis using adv s1 inv by blast
qed

end
